theory Spec2Isabelle
  imports Main
begin

section \<open>The job table\<close>

text \<open>
  The job queue of the repository lives in one SQLite table, \<^verbatim>\<open>job_queue\<close>, created by
  \<^verbatim>\<open>initSchema\<close> (pkg/database/database.go) and read and written through the statements of
  \<^verbatim>\<open>queries.sql\<close>. The service \<^verbatim>\<open>JobQueueService\<close> and the worker call these statements
  one at a time, outside of any transaction.

  Conventions of the model:
  \<^item> there is one clock. Go's \<^verbatim>\<open>time.Now()\<close> and SQLite's \<^verbatim>\<open>CURRENT_TIMESTAMP\<close> both read
    it, and the reading is a parameter \<open>now\<close> of every operation that looks at it; what
    the two write into a column is not the same text (see \<open>timestamp\<close> below);
  \<^item> \<^verbatim>\<open>int64\<close> columns are unbounded integers (no counter of the program comes near
    the 64-bit range);
  \<^item> a nullable column, which the generated row type holds as \<^verbatim>\<open>sql.NullInt64\<close>,
    \<^verbatim>\<open>sql.NullString\<close> or \<^verbatim>\<open>sql.NullTime\<close>, is an \<open>option\<close>, with \<open>None\<close> for NULL;
  \<^item> the database executes every statement it is given: the only errors a statement
    returns are \<^verbatim>\<open>sql.ErrNoRows\<close> and a violated constraint.
\<close>

type_synonym unix_second = int

text \<open>
  A Go \<^verbatim>\<open>time.Time\<close> as \<^verbatim>\<open>time.Now()\<close> returns it: the second since the epoch, the
  nanosecond within that second, and the offset of the process's zone, in seconds east of
  UTC. \<open>wall_second\<close> is the second that the wall clock of that zone shows.
\<close>

record Time =
  unix :: unix_second
  nanosecond :: nat
  zone_offset :: int

definition wall_second :: "Time \<Rightarrow> int" where
  "wall_second t = unix t + zone_offset t"

text \<open>
  A timestamp column holds a text, and there are two writers.
  \<^item> SQLite's \<^verbatim>\<open>CURRENT_TIMESTAMP\<close> and \<^verbatim>\<open>datetime\<close> write \<^verbatim>\<open>YYYY-MM-DD HH:MM:SS\<close>, the
    second in UTC: \<open>SqliteTimestamp s\<close>.
  \<^item> A \<^verbatim>\<open>time.Time\<close> that the program passes as a parameter is written by the driver
    (\<^verbatim>\<open>modernc.org/sqlite\<close>, which \<^verbatim>\<open>NewDatabaseService\<close> opens without a time format) as the
    text
    of \<^verbatim>\<open>Time.String()\<close>, \<^verbatim>\<open>YYYY-MM-DD HH:MM:SS.fffffffff +ZZZZ NAME m=...\<close>: the wall
    clock of the value's zone, the fraction without trailing zeros (nothing when it is
    zero), the zone and the monotonic reading. This is \<open>GoTimestamp t\<close>.

  SQLite compares two such texts byte by byte, in the WHERE clause and in ORDER BY alike.
  \<open>timestamp_less\<close> is that order, for years 0000 to 9999: the first 19 bytes order the
  texts by the second they show; a Go text continues after them where a SQLite text ends,
  so of two texts that show the same second the SQLite text is the smaller; two Go texts
  that show the same second are ordered by their fractions. Two Go texts that agree to the
  nanosecond are taken as equal (their texts differ at most in the zone and the monotonic
  reading).
\<close>

datatype timestamp = SqliteTimestamp unix_second | GoTimestamp Time

fun timestamp_less :: "timestamp \<Rightarrow> timestamp \<Rightarrow> bool" where
  "timestamp_less (SqliteTimestamp a) (SqliteTimestamp b) = (a < b)"
| "timestamp_less (SqliteTimestamp a) (GoTimestamp h) = (a \<le> wall_second h)"
| "timestamp_less (GoTimestamp g) (SqliteTimestamp b) = (wall_second g < b)"
| "timestamp_less (GoTimestamp g) (GoTimestamp h) =
     (wall_second g < wall_second h
      \<or> (wall_second g = wall_second h \<and> nanosecond g < nanosecond h))"

text \<open>The row type \<^verbatim>\<open>db.JobQueue\<close>, one field per column of \<^verbatim>\<open>job_queue\<close>.\<close>

record JobQueue =
  ID :: int
  JobType :: string
  Payload :: string
  Status :: string
  Priority :: "int option"
  MaxRetries :: "int option"
  RetryCount :: "int option"
  ErrorMessage :: "string option"
  ScheduledAt :: "timestamp option"
  StartedAt :: "timestamp option"
  CompletedAt :: "timestamp option"
  CreatedAt :: "timestamp option"

text \<open>The row type \<^verbatim>\<open>db.User\<close> of the table \<^verbatim>\<open>users\<close>.\<close>

record User_row =
  user_id :: int
  user_email :: string
  user_age :: int
  user_name :: "string option"
  user_bio :: "string option"
  user_is_active :: bool
  user_additional_data :: "string option"
  user_created_at :: "timestamp option"
  user_updated_at :: "timestamp option"

text \<open>
  The database: the rows of both tables in rowid order, and for each table the largest
  rowid handed out so far (both keys are \<^verbatim>\<open>INTEGER PRIMARY KEY AUTOINCREMENT\<close>).
\<close>

record database =
  users :: "User_row list"
  users_seq :: int
  job_queue :: "JobQueue list"
  job_queue_seq :: int

definition empty_database :: database where
  "empty_database = \<lparr>users = [], users_seq = 0, job_queue = [], job_queue_seq = 0\<rparr>"

datatype db_error = ErrNoRows | ErrConstraint

section \<open>SQL values and the expressions of the retry statement\<close>

text \<open>
  \<^verbatim>\<open>IncrementJobRetry\<close> computes the new \<^verbatim>\<open>scheduled_at\<close> with SQLite's string and
  arithmetic operators and its \<^verbatim>\<open>datetime\<close> function, so the model has SQLite's dynamically
  typed values and the coercions between them.
\<close>

datatype sql_value = SqlNull | SqlInteger int | SqlText string

definition digit_char :: "nat \<Rightarrow> char" where
  "digit_char d = char_of (48 + d)"

fun nat_dec :: "nat \<Rightarrow> string" where
  "nat_dec n = (if n < 10 then [digit_char n] else nat_dec (n div 10) @ [digit_char (n mod 10)])"

declare nat_dec.simps [simp del]

definition int_dec :: "int \<Rightarrow> string" where
  "int_dec i = (if i < 0 then CHR ''-'' # nat_dec (nat (- i)) else nat_dec (nat i))"

definition is_digit :: "char \<Rightarrow> bool" where
  "is_digit c = (48 \<le> (of_char c :: nat) \<and> (of_char c :: nat) \<le> 57)"

definition digits_value :: "string \<Rightarrow> nat" where
  "digits_value ds = foldl (\<lambda>acc c. 10 * acc + ((of_char c :: nat) - 48)) 0 ds"

text \<open>
  The value a text has where a number is wanted: the longest numeric prefix, 0 when there
  is none. Only integer prefixes are modelled.
\<close>

definition text_num :: "string \<Rightarrow> int" where
  "text_num s =
     (case s of
        [] \<Rightarrow> 0
      | c # r \<Rightarrow>
          if c = CHR ''-'' then - int (digits_value (takeWhile is_digit r))
          else if c = CHR ''+'' then int (digits_value (takeWhile is_digit r))
          else int (digits_value (takeWhile is_digit s)))"

fun sql_text :: "sql_value \<Rightarrow> string option" where
  "sql_text SqlNull = None"
| "sql_text (SqlInteger i) = Some (int_dec i)"
| "sql_text (SqlText s) = Some s"

fun sql_num :: "sql_value \<Rightarrow> int option" where
  "sql_num SqlNull = None"
| "sql_num (SqlInteger i) = Some i"
| "sql_num (SqlText s) = Some (text_num s)"

text \<open>The operators \<^verbatim>\<open>||\<close>, \<^verbatim>\<open>*\<close> and \<^verbatim>\<open>+\<close>: NULL when an operand is NULL.\<close>

definition sql_concat :: "sql_value \<Rightarrow> sql_value \<Rightarrow> sql_value" where
  "sql_concat a b =
     (case (sql_text a, sql_text b) of
        (Some x, Some y) \<Rightarrow> SqlText (x @ y)
      | _ \<Rightarrow> SqlNull)"

definition sql_mul :: "sql_value \<Rightarrow> sql_value \<Rightarrow> sql_value" where
  "sql_mul a b =
     (case (sql_num a, sql_num b) of
        (Some x, Some y) \<Rightarrow> SqlInteger (x * y)
      | _ \<Rightarrow> SqlNull)"

definition sql_add :: "sql_value \<Rightarrow> sql_value \<Rightarrow> sql_value" where
  "sql_add a b =
     (case (sql_num a, sql_num b) of
        (Some x, Some y) \<Rightarrow> SqlInteger (x + y)
      | _ \<Rightarrow> SqlNull)"

definition sql_of_int_option :: "int option \<Rightarrow> sql_value" where
  "sql_of_int_option v = (case v of None \<Rightarrow> SqlNull | Some i \<Rightarrow> SqlInteger i)"

text \<open>
  A modifier of \<^verbatim>\<open>datetime\<close> of the form \<^verbatim>\<open>NNN minutes\<close>: an optional sign, at least one
  digit, one blank and the unit \<^verbatim>\<open>minute\<close> or \<^verbatim>\<open>minutes\<close>. The result is the number of
  minutes. SQLite also takes a fraction, several blanks and other units; they occur in no
  statement of the repository and are not modelled. A text without a unit, such as the
  decimal digits of a number, is no modifier in SQLite either, and \<^verbatim>\<open>datetime\<close> then
  returns NULL.
\<close>

definition minutes_modifier :: "string \<Rightarrow> int option" where
  "minutes_modifier s =
     (let (sign, body) =
            (case s of
               [] \<Rightarrow> (1, [])
             | c # r \<Rightarrow>
                 if c = CHR ''+'' then (1, r)
                 else if c = CHR ''-'' then (- 1, r)
                 else (1, s));
          ds = takeWhile is_digit body;
          unit = dropWhile is_digit body
      in if ds \<noteq> [] \<and> (unit = '' minutes'' \<or> unit = '' minute'')
         then Some (sign * int (digits_value ds))
         else None)"

definition datetime :: "unix_second \<Rightarrow> sql_value \<Rightarrow> unix_second option" where
  "datetime t modifier =
     (case sql_text modifier of
        None \<Rightarrow> None
      | Some s \<Rightarrow>
          (case minutes_modifier s of
             None \<Rightarrow> None
           | Some m \<Rightarrow> Some (t + 60 * m)))"

section \<open>The statements of queries.sql\<close>

text \<open>
  \<^verbatim>\<open>CreateJob\<close>: the insert names five columns; the others take their defaults
  (\<^verbatim>\<open>status\<close> 'pending', \<^verbatim>\<open>retry_count\<close> 0, \<^verbatim>\<open>created_at\<close> \<^verbatim>\<open>CURRENT_TIMESTAMP\<close>, the rest
  NULL). \<open>now\<close> is the second \<^verbatim>\<open>CURRENT_TIMESTAMP\<close> shows; the other arguments are the
  statement's placeholders, in its order.
\<close>

definition CreateJob ::
  "database \<Rightarrow> unix_second \<Rightarrow> string \<Rightarrow> string \<Rightarrow> int option \<Rightarrow> int option \<Rightarrow> timestamp option
     \<Rightarrow> database \<times> (db_error + JobQueue)" where
  "CreateJob db now job_type payload priority max_retries scheduled_at =
     (let row = \<lparr>ID = job_queue_seq db + 1, JobType = job_type, Payload = payload,
                 Status = ''pending'', Priority = priority, MaxRetries = max_retries,
                 RetryCount = Some 0, ErrorMessage = None, ScheduledAt = scheduled_at,
                 StartedAt = None, CompletedAt = None,
                 CreatedAt = Some (SqliteTimestamp now)\<rparr>
      in (db\<lparr>job_queue := job_queue db @ [row], job_queue_seq := job_queue_seq db + 1\<rparr>,
          Inr row))"

text \<open>
  \<^verbatim>\<open>GetNextPendingJob\<close>: the WHERE clause, with \<open>now\<close> the second \<^verbatim>\<open>CURRENT_TIMESTAMP\<close>
  shows. \<^verbatim>\<open>scheduled_at <= CURRENT_TIMESTAMP\<close> compares the stored text with the text of
  \<^verbatim>\<open>CURRENT_TIMESTAMP\<close> (\<open>not_after\<close>): a text that SQLite wrote passes from its own second
  on, a text that the driver wrote for a \<^verbatim>\<open>time.Time\<close> only once \<^verbatim>\<open>CURRENT_TIMESTAMP\<close> is
  past the second its wall clock shows. A comparison with NULL is not true, so a row with a
  NULL \<^verbatim>\<open>scheduled_at\<close>, \<^verbatim>\<open>retry_count\<close> or \<^verbatim>\<open>max_retries\<close> is never selected.
\<close>

definition not_after :: "timestamp \<Rightarrow> unix_second \<Rightarrow> bool" where
  "not_after ts now = (timestamp_less ts (SqliteTimestamp now) \<or> ts = SqliteTimestamp now)"

definition eligible :: "unix_second \<Rightarrow> JobQueue \<Rightarrow> bool" where
  "eligible now j =
     (Status j = ''pending''
      \<and> (case ScheduledAt j of None \<Rightarrow> False | Some ts \<Rightarrow> not_after ts now)
      \<and> (case (RetryCount j, MaxRetries j) of
           (Some r, Some m) \<Rightarrow> r < m
         | _ \<Rightarrow> False))"

text \<open>
  \<^verbatim>\<open>ORDER BY priority DESC, scheduled_at ASC\<close>. In SQLite's sort order NULL comes before
  every value; the priorities are ordered as numbers (\<open>priority_less\<close>) and the
  \<^verbatim>\<open>scheduled_at\<close> as texts (\<open>scheduled_less\<close>). \<open>precedes a b\<close>: row \<open>a\<close> is strictly
  earlier than \<open>b\<close> in the result.
\<close>

fun priority_less :: "int option \<Rightarrow> int option \<Rightarrow> bool" where
  "priority_less None None = False"
| "priority_less None (Some b) = True"
| "priority_less (Some a) None = False"
| "priority_less (Some a) (Some b) = (a < b)"

fun scheduled_less :: "timestamp option \<Rightarrow> timestamp option \<Rightarrow> bool" where
  "scheduled_less None None = False"
| "scheduled_less None (Some b) = True"
| "scheduled_less (Some a) None = False"
| "scheduled_less (Some a) (Some b) = timestamp_less a b"

definition precedes :: "JobQueue \<Rightarrow> JobQueue \<Rightarrow> bool" where
  "precedes a b =
     (priority_less (Priority b) (Priority a)
      \<or> (Priority a = Priority b \<and> scheduled_less (ScheduledAt a) (ScheduledAt b)))"

text \<open>
  The sort is an insertion sort that keeps rows of equal rank in table order (SQLite
  leaves their order open; no theorem below depends on it).
\<close>

fun insert_row :: "JobQueue \<Rightarrow> JobQueue list \<Rightarrow> JobQueue list" where
  "insert_row j [] = [j]"
| "insert_row j (k # ks) = (if precedes k j then k # insert_row j ks else j # k # ks)"

definition order_by_priority :: "JobQueue list \<Rightarrow> JobQueue list" where
  "order_by_priority rows = foldr insert_row rows []"

definition GetNextPendingJob ::
  "database \<Rightarrow> unix_second \<Rightarrow> database \<times> (db_error + JobQueue)" where
  "GetNextPendingJob db now =
     (case take 1 (order_by_priority (filter (eligible now) (job_queue db))) of
        [] \<Rightarrow> (db, Inl ErrNoRows)
      | j # _ \<Rightarrow> (db, Inr j))"

text \<open>
  Both updates have the form \<^verbatim>\<open>UPDATE job_queue SET ... WHERE id = ? RETURNING *\<close> and
  are \<^verbatim>\<open>:one\<close>: every row with the given id is rewritten, the first rewritten row is
  returned, and no matching row is \<^verbatim>\<open>sql.ErrNoRows\<close>. \<open>set_row\<close> is the SET clause.
\<close>

definition update_where_id ::
  "database \<Rightarrow> int \<Rightarrow> (JobQueue \<Rightarrow> JobQueue) \<Rightarrow> database \<times> (db_error + JobQueue)" where
  "update_where_id db id' set_row =
     (let rows = map (\<lambda>j. if ID j = id' then set_row j else j) (job_queue db)
      in case filter (\<lambda>j. ID j = id') rows of
           [] \<Rightarrow> (db, Inl ErrNoRows)
         | j # _ \<Rightarrow> (db\<lparr>job_queue := rows\<rparr>, Inr j))"

text \<open>
  \<^verbatim>\<open>UpdateJobStatus\<close>: the four columns are overwritten with the four parameters,
  whatever the row held; a NULL parameter stores NULL. The statement has no condition on
  the row's current status.
\<close>

definition UpdateJobStatus ::
  "database \<Rightarrow> string \<Rightarrow> timestamp option \<Rightarrow> timestamp option \<Rightarrow> string option \<Rightarrow> int
     \<Rightarrow> database \<times> (db_error + JobQueue)" where
  "UpdateJobStatus db status started_at completed_at error_message id' =
     update_where_id db id'
       (\<lambda>j. j\<lparr>Status := status, StartedAt := started_at,
                CompletedAt := completed_at, ErrorMessage := error_message\<rparr>)"

text \<open>
  \<^verbatim>\<open>IncrementJobRetry\<close>. Every right-hand side reads the row as it was before the update.
  The new \<^verbatim>\<open>scheduled_at\<close> is written
  \<^verbatim>\<open>datetime(CURRENT_TIMESTAMP, '+' || (retry_count + 1) * 5 || ' minutes')\<close>.
  In SQLite's grammar \<^verbatim>\<open>||\<close> binds tighter than \<^verbatim>\<open>*\<close> (the table of operators in its
  documentation of expressions lists \<^verbatim>\<open>||\<close> above \<^verbatim>\<open>* / %\<close>), so the modifier is the product
  \<^verbatim>\<open>('+' || (retry_count + 1)) * (5 || ' minutes')\<close> of two texts, which is a number.
  \<open>retry_modifier\<close> is the expression as SQLite parses it; \<open>now\<close> is the second
  \<^verbatim>\<open>CURRENT_TIMESTAMP\<close> shows.
\<close>

definition retry_modifier :: "int option \<Rightarrow> sql_value" where
  "retry_modifier retry_count =
     sql_mul (sql_concat (SqlText ''+'') (sql_add (sql_of_int_option retry_count) (SqlInteger 1)))
             (sql_concat (SqlInteger 5) (SqlText '' minutes''))"

definition IncrementJobRetry ::
  "database \<Rightarrow> unix_second \<Rightarrow> string option \<Rightarrow> int \<Rightarrow> database \<times> (db_error + JobQueue)" where
  "IncrementJobRetry db now error_message id' =
     update_where_id db id'
       (\<lambda>j. j\<lparr>RetryCount := map_option (\<lambda>r. r + 1) (RetryCount j),
                Status := ''pending'',
                ScheduledAt :=
                  map_option SqliteTimestamp (datetime now (retry_modifier (RetryCount j))),
                ErrorMessage := error_message\<rparr>)"

text \<open>\<^verbatim>\<open>GetJobByID\<close>.\<close>

definition GetJobByID :: "database \<Rightarrow> int \<Rightarrow> database \<times> (db_error + JobQueue)" where
  "GetJobByID db id' =
     (case filter (\<lambda>j. ID j = id') (job_queue db) of
        [] \<Rightarrow> (db, Inl ErrNoRows)
      | j # _ \<Rightarrow> (db, Inr j))"

section \<open>JobQueueService\<close>

text \<open>
  The payload of a job, \<^verbatim>\<open>jobs.JobPayload\<close>. A Go value of type \<^verbatim>\<open>interface{}\<close> that the
  program stores in a payload is one of the cases of \<open>go_value\<close>; a
  \<^verbatim>\<open>map[string]interface{}\<close> is an association list, its \<^verbatim>\<open>len\<close> the length of the list.
\<close>

datatype go_value =
    GoNil
  | GoBool bool
  | GoInt int
  | GoString string
  | GoStringPtr "string option"
  | GoBoolPtr "bool option"
  | GoList "go_value list"
  | GoMap "(string \<times> go_value) list"

record JobPayload =
  UserID :: "int option"
  UserData :: "(string \<times> go_value) list"
  AdditionalProps :: "(string \<times> go_value) list"
  Message :: string
  Recipients :: "string list"
  ValidationMode :: string

text \<open>
  The errors the service and the user creation return. A constructor with an argument
  wraps the error of the step that failed, as \<^verbatim>\<open>fmt.Errorf("...: %w", err)\<close> does.
\<close>

datatype error =
    FailedToMarshalPayload string
  | FailedToCreateJob db_error
  | FailedToGetNextJob db_error
  | FailedToUpdateJobStatus db_error
  | FailedToMarshalAdditionalProperties string
  | FailedToCreateUser db_error

text \<open>
  \<^verbatim>\<open>EnqueueJob\<close>. \<^verbatim>\<open>json.Marshal\<close> is the parameter \<open>marshal\<close>; it returns the JSON text
  (\<open>Inr\<close>) or the message of its error (\<open>Inl\<close>). \<open>now\<close> is \<^verbatim>\<open>time.Now()\<close>, which the
  call passes for \<^verbatim>\<open>scheduled_at\<close>; \<^verbatim>\<open>CURRENT_TIMESTAMP\<close> shows its second. The same holds
  for the \<open>now\<close> of the other operations.
\<close>

definition EnqueueJob ::
  "(JobPayload \<Rightarrow> string + string) \<Rightarrow> database \<Rightarrow> string \<Rightarrow> JobPayload \<Rightarrow> int \<Rightarrow> Time
     \<Rightarrow> database \<times> (error + JobQueue)" where
  "EnqueueJob marshal db jobType payload priority now =
     (case marshal payload of
        Inl err \<Rightarrow> (db, Inl (FailedToMarshalPayload err))
      | Inr payloadJSON \<Rightarrow>
          (case CreateJob db (unix now) jobType payloadJSON (Some priority) (Some 3)
                  (Some (GoTimestamp now)) of
             (db1, Inl err) \<Rightarrow> (db1, Inl (FailedToCreateJob err))
           | (db1, Inr job) \<Rightarrow> (db1, Inr job)))"

text \<open>
  \<^verbatim>\<open>GetNextJob\<close>: the select, then the update, as two statements. The job returned is
  the row as the select read it, with only \<^verbatim>\<open>Status\<close> set by hand; \<open>Inr None\<close> is the
  result \<^verbatim>\<open>nil, nil\<close>.
\<close>

definition GetNextJob :: "database \<Rightarrow> Time \<Rightarrow> database \<times> (error + JobQueue option)" where
  "GetNextJob db now =
     (case GetNextPendingJob db (unix now) of
        (db1, Inl err) \<Rightarrow>
          if err = ErrNoRows then (db1, Inr None) else (db1, Inl (FailedToGetNextJob err))
      | (db1, Inr job) \<Rightarrow>
          (case UpdateJobStatus db1 ''processing'' (Some (GoTimestamp now)) None None (ID job) of
             (db2, Inl err) \<Rightarrow> (db2, Inl (FailedToUpdateJobStatus err))
           | (db2, Inr _) \<Rightarrow> (db2, Inr (Some (job\<lparr>Status := ''processing''\<rparr>)))))"

text \<open>
  \<^verbatim>\<open>CompleteJob\<close> and \<^verbatim>\<open>FailJob\<close> return the statement's error as it is (\<open>None\<close> is
  \<^verbatim>\<open>nil\<close>). Both pass \<^verbatim>\<open>sql.NullTime{Valid: false}\<close> for \<^verbatim>\<open>started_at\<close>, which the statement
  stores as NULL.
\<close>

definition CompleteJob :: "database \<Rightarrow> int \<Rightarrow> Time \<Rightarrow> database \<times> db_error option" where
  "CompleteJob db jobID now =
     (case UpdateJobStatus db ''completed'' None (Some (GoTimestamp now)) None jobID of
        (db1, Inl err) \<Rightarrow> (db1, Some err)
      | (db1, Inr _) \<Rightarrow> (db1, None))"

definition FailJob ::
  "database \<Rightarrow> int \<Rightarrow> string \<Rightarrow> bool \<Rightarrow> Time \<Rightarrow> database \<times> db_error option" where
  "FailJob db jobID errorMessage retry now =
     (if retry then
        (case IncrementJobRetry db (unix now) (Some errorMessage) jobID of
           (db1, Inl err) \<Rightarrow> (db1, Some err)
         | (db1, Inr _) \<Rightarrow> (db1, None))
      else
        (case UpdateJobStatus db ''failed'' None (Some (GoTimestamp now)) (Some errorMessage)
                jobID of
           (db1, Inl err) \<Rightarrow> (db1, Some err)
         | (db1, Inr _) \<Rightarrow> (db1, None)))"

section \<open>The worker\<close>

text \<open>
  A \<^verbatim>\<open>JobProcessor\<close> is its method \<^verbatim>\<open>Process\<close>: \<open>None\<close> for \<^verbatim>\<open>nil\<close>, \<open>Some msg\<close> for an
  error with text \<open>msg\<close>. The table of processors is the argument of \<^verbatim>\<open>processNextJob\<close>, a
  map from the job type. \<^verbatim>\<open>json.Unmarshal\<close> is the parameter \<open>unmarshal\<close>. The log lines of
  the worker are left out.
\<close>

type_synonym JobProcessor = "JobQueue \<Rightarrow> JobPayload \<Rightarrow> string option"

text \<open>
  The goroutine that \<^verbatim>\<open>processNextJob\<close> starts for a claimed job, run to its end at time
  \<open>now\<close>. \<open>job\<close> is the worker's copy of the row, from the claim. The errors of
  \<^verbatim>\<open>FailJob\<close> and \<^verbatim>\<open>CompleteJob\<close> are dropped, as in the source.
\<close>

definition processNextJob_goroutine ::
  "(string \<Rightarrow> string + JobPayload) \<Rightarrow> (string \<rightharpoonup> JobProcessor) \<Rightarrow> database \<Rightarrow> JobQueue \<Rightarrow> Time
     \<Rightarrow> database" where
  "processNextJob_goroutine unmarshal processors db job now =
     (case unmarshal (Payload job) of
        Inl err \<Rightarrow> fst (FailJob db (ID job) (''Failed to parse payload: '' @ err) False now)
      | Inr payload \<Rightarrow>
          (case processors (JobType job) of
             None \<Rightarrow>
               fst (FailJob db (ID job) (''No processor for job type: '' @ JobType job) False now)
           | Some processor \<Rightarrow>
               (case processor job payload of
                  Some err \<Rightarrow>
                    (let retryCount = (case RetryCount job of Some r \<Rightarrow> r | None \<Rightarrow> 0);
                         maxRetries = (case MaxRetries job of Some m \<Rightarrow> m | None \<Rightarrow> 0);
                         shouldRetry = (retryCount < maxRetries)
                     in fst (FailJob db (ID job) err shouldRetry now))
                | None \<Rightarrow> fst (CompleteJob db (ID job) now))))"

text \<open>
  \<^verbatim>\<open>processNextJob\<close>: one tick of one worker, the claim at time \<open>now\<close> and the goroutine
  finishing at time \<open>later\<close>.
\<close>

definition processNextJob ::
  "(string \<Rightarrow> string + JobPayload) \<Rightarrow> (string \<rightharpoonup> JobProcessor) \<Rightarrow> database \<Rightarrow> Time \<Rightarrow> Time
     \<Rightarrow> database" where
  "processNextJob unmarshal processors db now later =
     (case GetNextJob db now of
        (db1, Inl err) \<Rightarrow> db1
      | (db1, Inr None) \<Rightarrow> db1
      | (db1, Inr (Some job)) \<Rightarrow> processNextJob_goroutine unmarshal processors db1 job later)"

section \<open>Concurrent callers of GetNextJob\<close>

text \<open>
  The workers are goroutines that share one \<^verbatim>\<open>JobQueueService\<close>. \<^verbatim>\<open>GetNextJob\<close> runs its
  two statements without a transaction or a lock, so statements of other callers can run
  between them. A caller is at its select, at its update with the row it selected, or has
  returned; a schedule names, statement by statement, the caller that runs next and the
  time.
\<close>

datatype claim_state =
    AtSelect
  | AtUpdate JobQueue
  | Returned "error + JobQueue option"

fun GetNextJob_step :: "database \<Rightarrow> Time \<Rightarrow> claim_state \<Rightarrow> database \<times> claim_state" where
  "GetNextJob_step db now AtSelect =
     (case GetNextPendingJob db (unix now) of
        (db1, Inl err) \<Rightarrow>
          if err = ErrNoRows then (db1, Returned (Inr None))
          else (db1, Returned (Inl (FailedToGetNextJob err)))
      | (db1, Inr job) \<Rightarrow> (db1, AtUpdate job))"
| "GetNextJob_step db now (AtUpdate job) =
     (case UpdateJobStatus db ''processing'' (Some (GoTimestamp now)) None None (ID job) of
        (db2, Inl err) \<Rightarrow> (db2, Returned (Inl (FailedToUpdateJobStatus err)))
      | (db2, Inr _) \<Rightarrow> (db2, Returned (Inr (Some (job\<lparr>Status := ''processing''\<rparr>)))))"
| "GetNextJob_step db now (Returned r) = (db, Returned r)"

fun run_schedule ::
  "database \<Rightarrow> claim_state list \<Rightarrow> (nat \<times> Time) list \<Rightarrow> database \<times> claim_state list" where
  "run_schedule db callers [] = (db, callers)"
| "run_schedule db callers ((w, now) # schedule) =
     (if w < length callers then
        (case GetNextJob_step db now (callers ! w) of
           (db1, c) \<Rightarrow> run_schedule db1 (callers[w := c]) schedule)
      else run_schedule db callers schedule)"

section \<open>User creation\<close>

text \<open>
  \<^verbatim>\<open>generated.UserRequest\<close> and \<^verbatim>\<open>generated.User\<close>; a pointer field is an \<open>option\<close>.
\<close>

record UserRequest =
  req_Email :: string
  req_Age :: int
  req_Name :: "string option"
  req_Bio :: "string option"
  req_IsActive :: "bool option"

record User =
  Id :: int
  Email :: string
  Age :: int
  Name :: "string option"
  Bio :: "string option"
  IsActive :: "bool option"

text \<open>
  The statement \<^verbatim>\<open>CreateUser\<close> of queries.sql. The table has \<^verbatim>\<open>email\<close> UNIQUE and
  \<^verbatim>\<open>CHECK(age >= 0)\<close>; an insert that breaks either is rejected. \<open>now\<close> is the second
  \<^verbatim>\<open>CURRENT_TIMESTAMP\<close> shows.
\<close>

definition Queries_CreateUser ::
  "database \<Rightarrow> unix_second \<Rightarrow> string \<Rightarrow> int \<Rightarrow> string option \<Rightarrow> string option \<Rightarrow> bool
     \<Rightarrow> string option \<Rightarrow> database \<times> (db_error + User_row)" where
  "Queries_CreateUser db now email age name bio is_active additional_data =
     (if email \<in> set (map user_email (users db)) \<or> age < 0 then (db, Inl ErrConstraint)
      else
        (let row = \<lparr>user_id = users_seq db + 1, user_email = email, user_age = age,
                    user_name = name, user_bio = bio, user_is_active = is_active,
                    user_additional_data = additional_data,
                    user_created_at = Some (SqliteTimestamp now),
                    user_updated_at = Some (SqliteTimestamp now)\<rparr>
         in (db\<lparr>users := users db @ [row], users_seq := users_seq db + 1\<rparr>, Inr row)))"

definition convertDBUserToGenerated :: "User_row \<Rightarrow> error + User" where
  "convertDBUserToGenerated dbUser =
     Inr \<lparr>Id = user_id dbUser, Email = user_email dbUser, Age = user_age dbUser,
          Name = user_name dbUser, Bio = user_bio dbUser,
          IsActive = Some (user_is_active dbUser)\<rparr>"

text \<open>The payload \<^verbatim>\<open>CreateUser\<close> builds for the job of type \<^verbatim>\<open>user_created\<close>.\<close>

definition jobPayload_of :: "User \<Rightarrow> (string \<times> go_value) list \<Rightarrow> JobPayload" where
  "jobPayload_of user additionalProps =
     \<lparr>UserID = Some (Id user),
      UserData = [(''id'', GoInt (Id user)), (''email'', GoString (Email user)),
                  (''age'', GoInt (Age user)), (''name'', GoStringPtr (Name user)),
                  (''bio'', GoStringPtr (Bio user)), (''is_active'', GoBoolPtr (IsActive user))],
      AdditionalProps = additionalProps,
      Message = [], Recipients = [], ValidationMode = []\<rparr>"

text \<open>
  What \<^verbatim>\<open>CreateUser\<close> prints: the line
  \<^verbatim>\<open>Failed to enqueue job for user %d: %v\<close> with its two arguments.
\<close>

datatype output_line = FailedToEnqueueJobForUser int error

text \<open>
  \<^verbatim>\<open>DatabaseService.CreateUser\<close>. \<open>marshal_props\<close> is \<^verbatim>\<open>json.Marshal\<close> on the additional
  properties, \<open>marshal\<close> on the job payload. \<open>additionalData_of\<close> and \<open>isActive_of\<close> are
  the local variables \<^verbatim>\<open>additionalData\<close> and \<^verbatim>\<open>isActive\<close> that the function computes before
  the insert. The result is the database, the lines printed and the returned pair as a sum.
\<close>

definition additionalData_of ::
  "((string \<times> go_value) list \<Rightarrow> string + string) \<Rightarrow> (string \<times> go_value) list
     \<Rightarrow> error + string option" where
  "additionalData_of marshal_props additionalProps =
     (if length additionalProps > 0
      then (case marshal_props additionalProps of
              Inl err \<Rightarrow> Inl (FailedToMarshalAdditionalProperties err)
            | Inr jsonData \<Rightarrow> Inr (Some jsonData))
      else Inr None)"

definition isActive_of :: "UserRequest \<Rightarrow> bool" where
  "isActive_of userReq = (case req_IsActive userReq of None \<Rightarrow> True | Some b \<Rightarrow> b)"

definition CreateUser ::
  "((string \<times> go_value) list \<Rightarrow> string + string) \<Rightarrow> (JobPayload \<Rightarrow> string + string) \<Rightarrow> database
     \<Rightarrow> UserRequest \<Rightarrow> (string \<times> go_value) list \<Rightarrow> Time
     \<Rightarrow> database \<times> output_line list \<times> (error + User)" where
  "CreateUser marshal_props marshal db userReq additionalProps now =
     (case additionalData_of marshal_props additionalProps of
        Inl e \<Rightarrow> (db, [], Inl e)
      | Inr additionalData \<Rightarrow>
          (let name = req_Name userReq;
               bio = req_Bio userReq;
               isActive = isActive_of userReq
           in case Queries_CreateUser db (unix now) (req_Email userReq) (req_Age userReq) name
                     bio isActive additionalData of
                (db1, Inl err) \<Rightarrow> (db1, [], Inl (FailedToCreateUser err))
              | (db1, Inr dbUser) \<Rightarrow>
                  (case convertDBUserToGenerated dbUser of
                     Inl e \<Rightarrow> (db1, [], Inl e)
                   | Inr user \<Rightarrow>
                       (case EnqueueJob marshal db1 ''user_created''
                               (jobPayload_of user additionalProps) 1 now of
                          (db2, Inl jobErr) \<Rightarrow>
                            (db2, [FailedToEnqueueJobForUser (Id user) jobErr], Inr user)
                        | (db2, Inr _) \<Rightarrow> (db2, [], Inr user)))))"

section \<open>The primary key\<close>

text \<open>
  \<^verbatim>\<open>id INTEGER PRIMARY KEY AUTOINCREMENT\<close>: no two rows of \<^verbatim>\<open>job_queue\<close> have the same id,
  and no id is larger than the last one handed out.
\<close>

definition primary_key :: "database \<Rightarrow> bool" where
  "primary_key db =
     (distinct (map ID (job_queue db)) \<and> list_all (\<lambda>j. ID j \<le> job_queue_seq db) (job_queue db))"

section \<open>Example values\<close>

text \<open>Concrete inputs on which the theorems below are run.\<close>

definition example_payload :: JobPayload where
  "example_payload =
     \<lparr>UserID = None, UserData = [], AdditionalProps = [], Message = ''hello'',
      Recipients = [''admin@example.com''], ValidationMode = []\<rparr>"

definition marshal_ok :: "JobPayload \<Rightarrow> string + string" where
  "marshal_ok p = Inr ''{}''"

definition marshal_bad :: "JobPayload \<Rightarrow> string + string" where
  "marshal_bad p = Inl ''json: unsupported value''"

definition marshal_props_ok :: "(string \<times> go_value) list \<Rightarrow> string + string" where
  "marshal_props_ok m = Inr ''{}''"

definition unmarshal_ok :: "string \<Rightarrow> string + JobPayload" where
  "unmarshal_ok s = Inr example_payload"

definition unmarshal_bad :: "string \<Rightarrow> string + JobPayload" where
  "unmarshal_bad s = Inl ''unexpected end of JSON input''"

text \<open>
  A table of processors in which sending mail always fails and the analysis always
  succeeds; the job type \<^verbatim>\<open>data_export\<close> has no processor, as in \<^verbatim>\<open>Worker.Start\<close>.
\<close>

definition failing_processor :: JobProcessor where
  "failing_processor job payload = Some ''smtp: connection refused''"

definition succeeding_processor :: JobProcessor where
  "succeeding_processor job payload = None"

definition example_processors :: "string \<rightharpoonup> JobProcessor" where
  "example_processors =
     [''email_notification'' \<mapsto> failing_processor, ''data_analysis'' \<mapsto> succeeding_processor]"

text \<open>
  The reading of the clock at second \<open>s\<close>, on the full second, in a process whose zone is
  UTC, and in a process whose zone is nine hours east of UTC.
\<close>

definition utc :: "unix_second \<Rightarrow> Time" where
  "utc s = \<lparr>unix = s, nanosecond = 0, zone_offset = 0\<rparr>"

definition east9 :: "unix_second \<Rightarrow> Time" where
  "east9 s = \<lparr>unix = s, nanosecond = 0, zone_offset = 32400\<rparr>"

text \<open>
  One job enqueued at second 100 into the empty database by a process in UTC, and the same
  job claimed at second 110.
\<close>

definition db_enqueued :: database where
  "db_enqueued =
     fst (EnqueueJob marshal_ok empty_database ''email_notification'' example_payload 0 (utc 100))"

definition db_claimed :: database where
  "db_claimed = fst (GetNextJob db_enqueued (utc 110))"

text \<open>The row that this enqueue inserts and returns.\<close>

definition job_enqueued :: JobQueue where
  "job_enqueued =
     \<lparr>ID = 1, JobType = ''email_notification'', Payload = ''{}'', Status = ''pending'',
      Priority = Some 0, MaxRetries = Some 3, RetryCount = Some 0, ErrorMessage = None,
      ScheduledAt = Some (GoTimestamp (utc 100)), StartedAt = None, CompletedAt = None,
      CreatedAt = Some (SqliteTimestamp 100)\<rparr>"

text \<open>The same enqueue by a process nine hours east of UTC, and the row it inserts.\<close>

definition db_enqueued_east9 :: database where
  "db_enqueued_east9 =
     fst (EnqueueJob marshal_ok empty_database ''email_notification'' example_payload 0
            (east9 100))"

definition job_enqueued_east9 :: JobQueue where
  "job_enqueued_east9 =
     \<lparr>ID = 1, JobType = ''email_notification'', Payload = ''{}'', Status = ''pending'',
      Priority = Some 0, MaxRetries = Some 3, RetryCount = Some 0, ErrorMessage = None,
      ScheduledAt = Some (GoTimestamp (east9 100)), StartedAt = None, CompletedAt = None,
      CreatedAt = Some (SqliteTimestamp 100)\<rparr>"

text \<open>
  Four pending jobs, enqueued by a process in UTC: priority 1 at second 5, priority 5 at
  second 9, priority 5 at second 7, and priority 9 at second 50.
\<close>

definition pending_job :: "int \<Rightarrow> int \<Rightarrow> unix_second \<Rightarrow> JobQueue" where
  "pending_job i priority scheduled_at =
     \<lparr>ID = i, JobType = ''data_analysis'', Payload = ''{}'', Status = ''pending'',
      Priority = Some priority, MaxRetries = Some 3, RetryCount = Some 0, ErrorMessage = None,
      ScheduledAt = Some (GoTimestamp (utc scheduled_at)), StartedAt = None, CompletedAt = None,
      CreatedAt = Some (SqliteTimestamp scheduled_at)\<rparr>"

definition db_four_jobs :: database where
  "db_four_jobs =
     \<lparr>users = [], users_seq = 0,
      job_queue = [pending_job 1 1 5, pending_job 2 5 9, pending_job 3 5 7, pending_job 4 9 50],
      job_queue_seq = 4\<rparr>"

text \<open>
  A job of type \<^verbatim>\<open>data_export\<close> enqueued at second 100, and the worker's copy after the
  claim at second 110.
\<close>

definition db_export :: database where
  "db_export =
     fst (EnqueueJob marshal_ok empty_database ''data_export'' example_payload 0 (utc 100))"

definition job_export_claimed :: JobQueue where
  "job_export_claimed =
     \<lparr>ID = 1, JobType = ''data_export'', Payload = ''{}'', Status = ''processing'',
      Priority = Some 0, MaxRetries = Some 3, RetryCount = Some 0, ErrorMessage = None,
      ScheduledAt = Some (GoTimestamp (utc 100)), StartedAt = None, CompletedAt = None,
      CreatedAt = Some (SqliteTimestamp 100)\<rparr>"




text \<open>
  The claimed job of \<open>db_claimed\<close> completed at second 120, and failed without retry at
  second 120.
\<close>

definition db_completed :: database where
  "db_completed = fst (CompleteJob db_claimed 1 (utc 120))"

definition db_failed :: database where
  "db_failed = fst (FailJob db_claimed 1 ''smtp: connection refused'' False (utc 120))"

text \<open>
  A request for a new user, the row that the insert at second 50 adds to the empty
  database, the database after that insert, and the user returned.
\<close>

definition example_request :: UserRequest where
  "example_request =
     \<lparr>req_Email = ''workflow@example.com'', req_Age = 30, req_Name = None, req_Bio = None,
      req_IsActive = None\<rparr>"

definition example_user :: User where
  "example_user =
     \<lparr>Id = 1, Email = ''workflow@example.com'', Age = 30, Name = None, Bio = None,
      IsActive = Some True\<rparr>"

definition example_user_row :: User_row where
  "example_user_row =
     \<lparr>user_id = 1, user_email = ''workflow@example.com'', user_age = 30, user_name = None,
      user_bio = None, user_is_active = True, user_additional_data = None,
      user_created_at = Some (SqliteTimestamp 50),
      user_updated_at = Some (SqliteTimestamp 50)\<rparr>"

definition db_with_user :: database where
  "db_with_user =
     \<lparr>users = [example_user_row], users_seq = 1, job_queue = [], job_queue_seq = 0\<rparr>"

section \<open>Facts about the SQL expressions\<close>

lemma nat_dec_digits: "\<forall>c \<in> set (nat_dec n). is_digit c"
proof (induction n rule: nat_dec.induct)
  case (1 n)
  show ?case
  proof (cases "n < 10")
    case True
    then show ?thesis
      by (subst nat_dec.simps) (simp add: is_digit_def digit_char_def)
  next
    case False
    have "n mod 10 < 10" by simp
    then have "is_digit (digit_char (n mod 10))"
      by (simp add: is_digit_def digit_char_def)
    with False 1 show ?thesis
      by (subst nat_dec.simps) simp
  qed
qed

lemma is_digit_sign: "\<not> is_digit CHR ''+''" "\<not> is_digit CHR ''-''"
  by (simp_all add: is_digit_def)

lemma minutes_modifier_digits:
  assumes "\<forall>c \<in> set ds. is_digit c"
  shows "minutes_modifier ds = None"
proof (cases ds)
  case Nil
  then show ?thesis by (simp add: minutes_modifier_def)
next
  case (Cons c r)
  with assms have "is_digit c" by simp
  then have "c \<noteq> CHR ''+''" "c \<noteq> CHR ''-''" using is_digit_sign by auto
  moreover have "dropWhile is_digit ds = []" using assms by simp
  ultimately show ?thesis using Cons
    by (simp add: minutes_modifier_def)
qed

lemma minutes_modifier_int_dec: "minutes_modifier (int_dec i) = None"
proof (cases "i < 0")
  case True
  have drop: "dropWhile is_digit (nat_dec (nat (- i))) = []"
    using nat_dec_digits by simp
  from True show ?thesis
    by (simp add: int_dec_def minutes_modifier_def Let_def drop)
next
  case False
  then show ?thesis
    by (simp add: int_dec_def minutes_modifier_digits nat_dec_digits)
qed

lemma retry_modifier_cases: "retry_modifier rc = SqlNull \<or> (\<exists>i. retry_modifier rc = SqlInteger i)"
  by (cases rc) (simp_all add: retry_modifier_def sql_mul_def sql_concat_def sql_add_def sql_of_int_option_def)

lemma datetime_retry_modifier: "datetime now (retry_modifier rc) = None"
  using retry_modifier_cases [of rc]
  by (auto simp: datetime_def minutes_modifier_int_dec)

subsection \<open>Updates by id\<close>

lemma filter_ID_map_update:
  assumes "\<And>j. ID (f j) = ID j"
  shows "filter (\<lambda>j. ID j = i) (map (\<lambda>j. if ID j = i' then f j else j) rows) =
         (if i = i' then map f (filter (\<lambda>j. ID j = i) rows) else filter (\<lambda>j. ID j = i) rows)"
  using assms by (induction rows) auto

lemma update_where_id_rows:
  assumes "\<And>j. ID (f j) = ID j"
  shows "job_queue (fst (update_where_id db i f)) =
         map (\<lambda>j. if ID j = i then f j else j) (job_queue db)"
proof (cases "filter (\<lambda>j. ID j = i) (job_queue db)")
  case Nil
  then have "\<forall>j \<in> set (job_queue db). ID j \<noteq> i"
    by (simp add: filter_empty_conv)
  then have "map (\<lambda>j. if ID j = i then f j else j) (job_queue db) = job_queue db"
    by (simp add: map_idI)
  with Nil show ?thesis
    by (simp add: update_where_id_def)
next
  case (Cons r rs)
  then show ?thesis
    by (simp add: update_where_id_def filter_ID_map_update [OF assms])
qed

lemma update_where_id_result:
  assumes "\<And>j. ID (f j) = ID j"
  shows "snd (update_where_id db i f) =
         (case snd (GetJobByID db i) of Inl e \<Rightarrow> Inl e | Inr row \<Rightarrow> Inr (f row))"
  by (cases "filter (\<lambda>j. ID j = i) (job_queue db)")
     (simp_all add: update_where_id_def GetJobByID_def filter_ID_map_update [OF assms])

lemma update_where_id_lookup:
  assumes "\<And>j. ID (f j) = ID j"
  shows "snd (GetJobByID (fst (update_where_id db i f)) i') =
         (case snd (GetJobByID db i') of
            Inl e \<Rightarrow> Inl e
          | Inr row \<Rightarrow> Inr (if i' = i then f row else row))"
proof (cases "i' = i")
  case True
  have "filter (\<lambda>j. ID j = i) (job_queue (fst (update_where_id db i f))) =
        map f (filter (\<lambda>j. ID j = i) (job_queue db))"
    by (simp add: update_where_id_rows [OF assms] filter_ID_map_update [OF assms])
  with True show ?thesis
    by (cases "filter (\<lambda>j. ID j = i) (job_queue db)") (simp_all add: GetJobByID_def)
next
  case False
  have "filter (\<lambda>j. ID j = i') (job_queue (fst (update_where_id db i f))) =
        filter (\<lambda>j. ID j = i') (job_queue db)"
    using False by (simp add: update_where_id_rows [OF assms] filter_ID_map_update [OF assms])
  with False show ?thesis
    by (cases "filter (\<lambda>j. ID j = i') (job_queue db)") (simp_all add: GetJobByID_def)
qed

lemma CompleteJob_lookup:
  "snd (GetJobByID (fst (CompleteJob db i now)) i') =
     (case snd (GetJobByID db i') of
        Inl e \<Rightarrow> Inl e
      | Inr row \<Rightarrow>
          Inr (if i' = i
               then row\<lparr>Status := ''completed'', StartedAt := None,
                        CompletedAt := Some (GoTimestamp now), ErrorMessage := None\<rparr>
               else row))"
proof -
  have "fst (CompleteJob db i now) =
        fst (update_where_id db i (\<lambda>j. j\<lparr>Status := ''completed'', StartedAt := None,
                CompletedAt := Some (GoTimestamp now), ErrorMessage := None\<rparr>))"
    by (simp add: CompleteJob_def UpdateJobStatus_def split: prod.splits sum.splits)
  then show ?thesis
    by (simp add: update_where_id_lookup)
qed

lemma FailJob_no_retry_lookup:
  "snd (GetJobByID (fst (FailJob db i msg False now)) i') =
     (case snd (GetJobByID db i') of
        Inl e \<Rightarrow> Inl e
      | Inr row \<Rightarrow>
          Inr (if i' = i
               then row\<lparr>Status := ''failed'', StartedAt := None,
                        CompletedAt := Some (GoTimestamp now), ErrorMessage := Some msg\<rparr>
               else row))"
proof -
  have "fst (FailJob db i msg False now) =
        fst (update_where_id db i (\<lambda>j. j\<lparr>Status := ''failed'', StartedAt := None,
                CompletedAt := Some (GoTimestamp now), ErrorMessage := Some msg\<rparr>))"
    by (simp add: FailJob_def UpdateJobStatus_def split: prod.splits sum.splits)
  then show ?thesis
    by (simp add: update_where_id_lookup)
qed

lemma FailJob_retry_lookup:
  "snd (GetJobByID (fst (FailJob db i msg True now)) i') =
     (case snd (GetJobByID db i') of
        Inl e \<Rightarrow> Inl e
      | Inr row \<Rightarrow>
          Inr (if i' = i
               then row\<lparr>RetryCount := map_option (\<lambda>r. r + 1) (RetryCount row),
                        Status := ''pending'', ScheduledAt := None,
                        ErrorMessage := Some msg\<rparr>
               else row))"
proof -
  have "fst (FailJob db i msg True now) =
        fst (update_where_id db i (\<lambda>j. j\<lparr>RetryCount := map_option (\<lambda>r. r + 1) (RetryCount j),
                Status := ''pending'', ScheduledAt := None, ErrorMessage := Some msg\<rparr>))"
    by (simp add: FailJob_def IncrementJobRetry_def datetime_retry_modifier
             split: prod.splits sum.splits)
  then show ?thesis
    by (simp add: update_where_id_lookup)
qed

subsection \<open>The order of the select\<close>

lemma priority_less_irrefl: "\<not> priority_less a a"
  by (cases a) simp_all

lemma priority_less_trans: "priority_less a b \<Longrightarrow> priority_less b c \<Longrightarrow> priority_less a c"
  by (cases a; cases b; cases c) simp_all

lemma priority_less_total: "priority_less a b \<or> a = b \<or> priority_less b a"
  by (cases a; cases b) auto

lemma priority_less_asym: "priority_less a b \<Longrightarrow> \<not> priority_less b a"
  using priority_less_irrefl priority_less_trans by blast

lemma timestamp_less_irrefl: "\<not> timestamp_less a a"
  by (cases a) simp_all

lemma timestamp_less_asym: "timestamp_less a b \<Longrightarrow> \<not> timestamp_less b a"
  by (cases a; cases b) auto

lemma timestamp_less_negtrans:
  "\<not> timestamp_less c b \<Longrightarrow> \<not> timestamp_less b a \<Longrightarrow> \<not> timestamp_less c a"
  by (cases a; cases b; cases c) auto

lemma scheduled_less_irrefl: "\<not> scheduled_less a a"
  by (cases a) (simp_all add: timestamp_less_irrefl)

lemma scheduled_less_asym: "scheduled_less a b \<Longrightarrow> \<not> scheduled_less b a"
  by (cases a; cases b) (simp_all add: timestamp_less_asym)

lemma scheduled_less_negtrans:
  assumes "\<not> scheduled_less c b" and "\<not> scheduled_less b a"
  shows "\<not> scheduled_less c a"
proof (cases a)
  case None
  then show ?thesis by (cases c) simp_all
next
  case a: (Some x)
  show ?thesis
  proof (cases b)
    case None
    with assms(2) a show ?thesis by simp
  next
    case b: (Some y)
    show ?thesis
    proof (cases c)
      case None
      with assms(1) b show ?thesis by simp
    next
      case (Some z)
      with assms a b show ?thesis
        using timestamp_less_negtrans [of z y x] by simp
    qed
  qed
qed

lemma precedes_asym: "precedes a b \<Longrightarrow> \<not> precedes b a"
  unfolding precedes_def
  using priority_less_asym priority_less_irrefl scheduled_less_asym by metis

lemma precedes_negtrans:
  assumes "\<not> precedes c b" and "\<not> precedes b a"
  shows "\<not> precedes c a"
proof -
  have pri: "\<not> priority_less (Priority b) (Priority c)"
            "\<not> priority_less (Priority a) (Priority b)"
    using assms by (simp_all add: precedes_def)
  have sch: "Priority c = Priority b \<Longrightarrow> \<not> scheduled_less (ScheduledAt c) (ScheduledAt b)"
            "Priority b = Priority a \<Longrightarrow> \<not> scheduled_less (ScheduledAt b) (ScheduledAt a)"
    using assms by (simp_all add: precedes_def)
  show ?thesis
  proof
    assume "precedes c a"
    then consider "priority_less (Priority a) (Priority c)"
      | "Priority c = Priority a" "scheduled_less (ScheduledAt c) (ScheduledAt a)"
      by (auto simp: precedes_def)
    then show False
    proof cases
      case 1
      then show False
        using pri priority_less_total [of "Priority a" "Priority b"]
              priority_less_total [of "Priority b" "Priority c"] priority_less_trans
        by metis
    next
      case 2
      have eq: "Priority b = Priority a"
        using 2(1) pri priority_less_total [of "Priority a" "Priority b"] by metis
      with 2(1) sch have "\<not> scheduled_less (ScheduledAt c) (ScheduledAt b)"
                         "\<not> scheduled_less (ScheduledAt b) (ScheduledAt a)"
        by simp_all
      then have "\<not> scheduled_less (ScheduledAt c) (ScheduledAt a)"
        by (rule scheduled_less_negtrans)
      with 2(2) show False by simp
    qed
  qed
qed

lemma set_insert_row: "set (insert_row j ks) = insert j (set ks)"
  by (induction ks) auto

lemma set_order_by_priority: "set (order_by_priority rows) = set rows"
  by (induction rows) (simp_all add: order_by_priority_def set_insert_row)

lemma sorted_insert_row:
  "sorted_wrt (\<lambda>a b. \<not> precedes b a) ks \<Longrightarrow> sorted_wrt (\<lambda>a b. \<not> precedes b a) (insert_row j ks)"
proof (induction ks)
  case Nil
  then show ?case by simp
next
  case (Cons k ks)
  show ?case
  proof (cases "precedes k j")
    case True
    with Cons show ?thesis
      by (auto simp: set_insert_row dest: precedes_asym)
  next
    case False
    with Cons.prems show ?thesis
      by (auto dest: precedes_negtrans)
  qed
qed

lemma sorted_order_by_priority:
  "sorted_wrt (\<lambda>a b. \<not> precedes b a) (order_by_priority rows)"
proof (induction rows)
  case Nil
  then show ?case by (simp add: order_by_priority_def)
next
  case (Cons r rows)
  then show ?case
    using sorted_insert_row [of "order_by_priority rows" r]
    by (simp add: order_by_priority_def)
qed

lemma order_by_priority_head:
  assumes "order_by_priority rows = j # js"
  shows "j \<in> set rows" and "\<forall>k \<in> set rows. \<not> precedes k j"
proof -
  show "j \<in> set rows"
    using assms set_order_by_priority [of rows] by (metis list.set_intros(1))
  have "sorted_wrt (\<lambda>a b. \<not> precedes b a) (j # js)"
    using sorted_order_by_priority [of rows] assms by simp
  then have "\<forall>k \<in> set js. \<not> precedes k j" by simp
  moreover have "\<not> precedes j j"
    using precedes_asym by blast
  moreover have "set rows = insert j (set js)"
    using assms set_order_by_priority [of rows] by (metis list.simps(15))
  ultimately show "\<forall>k \<in> set rows. \<not> precedes k j" by simp
qed

subsection \<open>The claim\<close>

lemma GetJobByID_member:
  "j \<in> set (job_queue db) \<Longrightarrow> \<exists>row. snd (GetJobByID db (ID j)) = Inr row"
proof -
  assume "j \<in> set (job_queue db)"
  then have "filter (\<lambda>r. ID r = ID j) (job_queue db) \<noteq> []"
    by (auto simp: filter_empty_conv)
  then show ?thesis
    by (cases "filter (\<lambda>r. ID r = ID j) (job_queue db)") (simp_all add: GetJobByID_def)
qed

lemma GetJobByID_Inr:
  assumes "snd (GetJobByID db i) = Inr row"
  shows "row \<in> set (job_queue db)" and "ID row = i"
proof -
  obtain rs where f: "filter (\<lambda>r. ID r = i) (job_queue db) = row # rs"
    using assms by (cases "filter (\<lambda>r. ID r = i) (job_queue db)") (simp_all add: GetJobByID_def)
  then have "row \<in> set (filter (\<lambda>r. ID r = i) (job_queue db))" by simp
  then show "row \<in> set (job_queue db)" and "ID row = i" by simp_all
qed

lemma GetNextJob_none:
  assumes "order_by_priority (filter (eligible (unix now)) (job_queue db)) = []"
  shows "GetNextJob db now = (db, Inr None)"
  using assms by (simp add: GetNextJob_def GetNextPendingJob_def)

lemma GetNextJob_some:
  assumes "order_by_priority (filter (eligible (unix now)) (job_queue db)) = j # js"
  shows "GetNextJob db now =
           (fst (update_where_id db (ID j)
                   (\<lambda>r. r\<lparr>Status := ''processing'', StartedAt := Some (GoTimestamp now),
                            CompletedAt := None, ErrorMessage := None\<rparr>)),
            Inr (Some (j\<lparr>Status := ''processing''\<rparr>)))"
proof -
  let ?f = "\<lambda>r. r\<lparr>Status := ''processing'', StartedAt := Some (GoTimestamp now),
                     CompletedAt := None, ErrorMessage := None\<rparr>"
  have "j \<in> set (filter (eligible (unix now)) (job_queue db))"
    using order_by_priority_head(1) [OF assms] .
  then have "j \<in> set (job_queue db)" by simp
  then obtain row where "snd (GetJobByID db (ID j)) = Inr row"
    using GetJobByID_member by blast
  then have "snd (update_where_id db (ID j) ?f) = Inr (?f row)"
    by (simp add: update_where_id_result)
  then obtain db2 where "update_where_id db (ID j) ?f = (db2, Inr (?f row))"
    by (cases "update_where_id db (ID j) ?f") simp
  with assms show ?thesis
    by (simp add: GetNextJob_def GetNextPendingJob_def UpdateJobStatus_def)
qed

lemma GetNextJob_claimed:
  assumes "GetNextJob db now = (db1, Inr (Some job))"
  shows "\<exists>j js. order_by_priority (filter (eligible (unix now)) (job_queue db)) = j # js
           \<and> job = j\<lparr>Status := ''processing''\<rparr>
           \<and> db1 = fst (update_where_id db (ID j)
                   (\<lambda>r. r\<lparr>Status := ''processing'', StartedAt := Some (GoTimestamp now),
                            CompletedAt := None, ErrorMessage := None\<rparr>))"
proof (cases "order_by_priority (filter (eligible (unix now)) (job_queue db))")
  case Nil
  with assms show ?thesis by (simp add: GetNextJob_none)
next
  case (Cons j js)
  with assms show ?thesis by (simp add: GetNextJob_some)
qed

lemma goroutine_unprocessable:
  assumes "(\<exists>err. unmarshal (Payload job) = Inl err) \<or> processors (JobType job) = None"
  shows "\<exists>msg. processNextJob_goroutine unmarshal processors db job now =
                fst (FailJob db (ID job) msg False now)"
  using assms
  by (cases "unmarshal (Payload job)") (auto simp: processNextJob_goroutine_def)


lemma FailJob_lookup_other:
  assumes "i' \<noteq> i"
  shows "snd (GetJobByID (fst (FailJob db i' msg retry now)) i) = snd (GetJobByID db i)"
  using assms
  by (cases retry; cases "snd (GetJobByID db i)")
     (simp_all add: FailJob_retry_lookup FailJob_no_retry_lookup)

lemma CompleteJob_lookup_other:
  assumes "i' \<noteq> i"
  shows "snd (GetJobByID (fst (CompleteJob db i' now)) i) = snd (GetJobByID db i)"
  using assms
  by (cases "snd (GetJobByID db i)") (simp_all add: CompleteJob_lookup)

lemma GetNextJob_keeps_not_pending:
  assumes d: "distinct (map ID (job_queue db))"
      and r: "snd (GetJobByID db i) = Inr row"
      and s: "Status row \<noteq> ''pending''"
  shows "snd (GetJobByID (fst (GetNextJob db now)) i) = Inr row"
proof (cases "order_by_priority (filter (eligible (unix now)) (job_queue db))")
  case Nil
  with r show ?thesis by (simp add: GetNextJob_none)
next
  case (Cons j js)
  have "j \<in> set (filter (eligible (unix now)) (job_queue db))"
    using order_by_priority_head(1) [OF Cons] .
  then have j: "j \<in> set (job_queue db)" "Status j = ''pending''"
    by (simp_all add: eligible_def)
  have row: "row \<in> set (job_queue db)" "ID row = i"
    using GetJobByID_Inr [OF r] by simp_all
  have "ID j \<noteq> i"
  proof
    assume "ID j = i"
    with row j(1) d have "j = row"
      by (simp add: distinct_map inj_on_def)
    with j(2) s show False by simp
  qed
  then show ?thesis
    using r by (simp add: GetNextJob_some [OF Cons] update_where_id_lookup)
qed

lemma EnqueueJob_users: "users (fst (EnqueueJob marshal db jobType payload priority now)) = users db"
  by (cases "marshal payload") (simp_all add: EnqueueJob_def CreateJob_def Let_def)

lemma EnqueueJob_marshal_error:
  "marshal payload = Inl m \<Longrightarrow>
     EnqueueJob marshal db jobType payload priority now = (db, Inl (FailedToMarshalPayload m))"
  by (simp add: EnqueueJob_def)

lemma EnqueueJob_marshal_ok:
  "marshal payload = Inr js \<Longrightarrow> \<exists>db1 job. EnqueueJob marshal db jobType payload priority now = (db1, Inr job)"
  by (simp add: EnqueueJob_def CreateJob_def Let_def)

subsection \<open>The primary key is kept\<close>

lemma primary_key_empty: "primary_key empty_database"
  by (simp add: primary_key_def empty_database_def)

lemma update_where_id_seq: "job_queue_seq (fst (update_where_id db i f)) = job_queue_seq db"
  by (simp add: update_where_id_def Let_def split: list.splits)

lemma primary_key_update_where_id:
  assumes "\<And>j. ID (f j) = ID j" and "primary_key db"
  shows "primary_key (fst (update_where_id db i f))"
proof -
  let ?rows = "map (\<lambda>j. if ID j = i then f j else j) (job_queue db)"
  have ids: "map ID ?rows = map ID (job_queue db)"
    using assms(1) by simp
  have "list_all (\<lambda>j. ID j \<le> job_queue_seq db) ?rows"
    using assms by (auto simp: primary_key_def list_all_iff)
  moreover have "distinct (map ID ?rows)"
    using assms(2) by (simp only: ids primary_key_def)
  ultimately show ?thesis
    by (simp only: primary_key_def update_where_id_rows [OF assms(1)] update_where_id_seq)
qed

lemma primary_key_EnqueueJob:
  assumes "primary_key db"
  shows "primary_key (fst (EnqueueJob marshal db jobType payload priority now))"
  using assms
  by (cases "marshal payload")
     (auto simp: EnqueueJob_def CreateJob_def Let_def primary_key_def list_all_iff)

lemma primary_key_GetNextJob:
  assumes "primary_key db"
  shows "primary_key (fst (GetNextJob db now))"
proof (cases "order_by_priority (filter (eligible (unix now)) (job_queue db))")
  case Nil
  with assms show ?thesis by (simp add: GetNextJob_none)
next
  case (Cons j js)
  with assms show ?thesis
    by (simp add: GetNextJob_some primary_key_update_where_id)
qed

lemma primary_key_CompleteJob:
  assumes "primary_key db"
  shows "primary_key (fst (CompleteJob db i now))"
proof -
  have "fst (CompleteJob db i now) =
        fst (update_where_id db i (\<lambda>j. j\<lparr>Status := ''completed'', StartedAt := None,
                CompletedAt := Some (GoTimestamp now), ErrorMessage := None\<rparr>))"
    by (simp add: CompleteJob_def UpdateJobStatus_def split: prod.splits sum.splits)
  with assms show ?thesis
    by (simp add: primary_key_update_where_id)
qed

lemma primary_key_FailJob:
  assumes "primary_key db"
  shows "primary_key (fst (FailJob db i msg retry now))"
proof (cases retry)
  case True
  have "fst (FailJob db i msg True now) =
        fst (update_where_id db i (\<lambda>j. j\<lparr>RetryCount := map_option (\<lambda>r. r + 1) (RetryCount j),
                Status := ''pending'', ScheduledAt := None, ErrorMessage := Some msg\<rparr>))"
    by (simp add: FailJob_def IncrementJobRetry_def datetime_retry_modifier
             split: prod.splits sum.splits)
  with True assms show ?thesis
    by (simp add: primary_key_update_where_id)
next
  case False
  have "fst (FailJob db i msg False now) =
        fst (update_where_id db i (\<lambda>j. j\<lparr>Status := ''failed'', StartedAt := None,
                CompletedAt := Some (GoTimestamp now), ErrorMessage := Some msg\<rparr>))"
    by (simp add: FailJob_def UpdateJobStatus_def split: prod.splits sum.splits)
  with False assms show ?thesis
    by (simp add: primary_key_update_where_id)
qed

subsection \<open>One caller and two callers in sequence\<close>

text \<open>
  A caller that runs its two statements back to back is \<^verbatim>\<open>GetNextJob\<close>, and two calls
  one after the other never return the same job: the first call has set the status of
  every row with that id to processing.
\<close>

lemma run_schedule_one_caller:
  "run_schedule db [AtSelect] [(0, now), (0, now)] =
     (fst (GetNextJob db now), [Returned (snd (GetNextJob db now))])"
  by (simp add: GetNextJob_def split: prod.splits sum.splits)

lemma sequential_claims_differ:
  assumes "GetNextJob db t1 = (db1, Inr (Some a))"
      and "GetNextJob db1 t2 = (db2, Inr (Some b))"
  shows "ID a \<noteq> ID b"
proof -
  let ?f = "\<lambda>r. r\<lparr>Status := ''processing'', StartedAt := Some (GoTimestamp t1),
                     CompletedAt := None, ErrorMessage := None\<rparr>"
  obtain j js where a: "a = j\<lparr>Status := ''processing''\<rparr>"
    and db1: "db1 = fst (update_where_id db (ID j) ?f)"
    using GetNextJob_claimed [OF assms(1)] by blast
  obtain k ks where sel: "order_by_priority (filter (eligible (unix t2)) (job_queue db1)) = k # ks"
    and b: "b = k\<lparr>Status := ''processing''\<rparr>"
    using GetNextJob_claimed [OF assms(2)] by blast
  have "k \<in> set (filter (eligible (unix t2)) (job_queue db1))"
    using order_by_priority_head(1) [OF sel] .
  then have k: "k \<in> set (job_queue db1)" "Status k = ''pending''"
    by (simp_all add: eligible_def)
  have "job_queue db1 = map (\<lambda>r. if ID r = ID j then ?f r else r) (job_queue db)"
    by (simp add: db1 update_where_id_rows)
  with k(1) have "\<exists>r. k = (if ID r = ID j then ?f r else r)"
    by auto
  then obtain r where "k = (if ID r = ID j then ?f r else r)" ..
  with k(2) have "ID k \<noteq> ID j"
    by (auto split: if_splits)
  with a b show ?thesis by simp
qed

subsection \<open>What the select returns\<close>

text \<open>
  Of the rows that pass the WHERE clause, \<^verbatim>\<open>GetNextJob\<close> returns one that no other such row
  precedes: none has a higher priority, and none of the same priority has a smaller
  \<^verbatim>\<open>scheduled_at\<close> text. A row whose \<^verbatim>\<open>scheduled_at\<close> the driver wrote passes the WHERE clause
  only after the second its wall clock shows.
\<close>

lemma GetNextJob_returns_first_selected:
  "(if \<exists>k \<in> set (job_queue db). eligible (unix now) k
    then \<exists>db' j. GetNextJob db now = (db', Inr (Some (j\<lparr>Status := ''processing''\<rparr>)))
           \<and> j \<in> set (job_queue db) \<and> eligible (unix now) j
           \<and> (\<forall>k \<in> set (job_queue db). eligible (unix now) k \<longrightarrow>
                 \<not> priority_less (Priority j) (Priority k)
                 \<and> (Priority k = Priority j \<longrightarrow>
                      \<not> scheduled_less (ScheduledAt k) (ScheduledAt j)))
    else GetNextJob db now = (db, Inr None))"
proof (cases "order_by_priority (filter (eligible (unix now)) (job_queue db))")
  case Nil
  then have "set (filter (eligible (unix now)) (job_queue db)) = {}"
    using set_order_by_priority [of "filter (eligible (unix now)) (job_queue db)"] by simp
  then have "\<not> (\<exists>k \<in> set (job_queue db). eligible (unix now) k)"
    by (auto simp: filter_empty_conv)
  with Nil show ?thesis by (simp add: GetNextJob_none)
next
  case (Cons j js)
  have jin: "j \<in> set (filter (eligible (unix now)) (job_queue db))"
    and best: "\<forall>k \<in> set (filter (eligible (unix now)) (job_queue db)). \<not> precedes k j"
    using order_by_priority_head [OF Cons] by blast+
  from jin have j: "j \<in> set (job_queue db)" "eligible (unix now) j" by simp_all
  have "\<not> priority_less (Priority j) (Priority k)
        \<and> (Priority k = Priority j \<longrightarrow> \<not> scheduled_less (ScheduledAt k) (ScheduledAt j))"
    if k: "k \<in> set (job_queue db)" "eligible (unix now) k" for k
  proof -
    from k best have "\<not> precedes k j" by simp
    then show ?thesis by (simp add: precedes_def)
  qed
  with j GetNextJob_some [OF Cons] show ?thesis by auto
qed

lemma GetNextJob_four_jobs:
  "snd (GetNextJob db_four_jobs (utc 10)) =
     Inr (Some ((pending_job 3 5 7)\<lparr>Status := ''processing''\<rparr>))"
  by code_simp

lemma eligible_go_timestamp:
  "eligible now j \<Longrightarrow> ScheduledAt j = Some (GoTimestamp t) \<Longrightarrow> wall_second t < now"
  by (simp add: eligible_def not_after_def)

lemma EnqueueJob_error_keeps_database:
  "EnqueueJob marshal db jobType payload priority now = (db2, Inl jobErr) \<Longrightarrow> db2 = db"
  by (cases "marshal payload") (simp_all add: EnqueueJob_def CreateJob_def Let_def)

section \<open>The claims\<close>

text \<open>
  Claim C1 asks that two concurrent callers of \<^verbatim>\<open>GetNextJob\<close> never receive the same job.
  With one eligible job in the table and two callers whose statements interleave as
  select, select, update, update, both callers return job 1: the second select still
  sees the status pending, and the update has no condition on the status.
\<close>

theorem interleaved_claims_return_same_job:
  "job_queue db_enqueued = [job_enqueued]
   \<and> eligible 110 job_enqueued
   \<and> snd (run_schedule db_enqueued [AtSelect, AtSelect] [(0, utc 110), (1, utc 110), (0, utc 110), (1, utc 110)]) =
       [Returned (Inr (Some (job_enqueued\<lparr>Status := ''processing''\<rparr>))),
        Returned (Inr (Some (job_enqueued\<lparr>Status := ''processing''\<rparr>)))]"
  by code_simp

text \<open>
  Claim C2 counts a pending job with retries left as eligible as soon as its
  \<^verbatim>\<open>scheduled_at\<close> is reached, and expects \<^verbatim>\<open>GetNextJob\<close> to return the best such job.
  \<^verbatim>\<open>EnqueueJob\<close> schedules a job for the time of the call. Enqueued at second 100 by a
  process in UTC, the job is not returned by \<^verbatim>\<open>GetNextJob\<close> at second 100, only from second
  101 on; enqueued at second 100 by a process nine hours east of UTC, it is not returned at
  second 110 nor at second 32500, only from second 32501 on. In both tables it is the only
  row, pending, with \<^verbatim>\<open>retry_count\<close> 0 of 3, and \<^verbatim>\<open>GetNextJob\<close> returns \<^verbatim>\<open>nil, nil\<close>: the
  WHERE clause compares the text the driver stored for \<^verbatim>\<open>time.Now()\<close> with the text of
  \<^verbatim>\<open>CURRENT_TIMESTAMP\<close>.
\<close>

theorem GetNextJob_misses_due_job:
  "job_queue db_enqueued = [job_enqueued]
   \<and> Status job_enqueued = ''pending''
   \<and> RetryCount job_enqueued = Some 0 \<and> MaxRetries job_enqueued = Some 3
   \<and> ScheduledAt job_enqueued = Some (GoTimestamp (utc 100))
   \<and> unix (utc 100) \<le> unix (utc 100)
   \<and> snd (GetNextJob db_enqueued (utc 100)) = Inr None
   \<and> snd (GetNextJob db_enqueued (utc 101)) =
       Inr (Some (job_enqueued\<lparr>Status := ''processing''\<rparr>))
   \<and> job_queue db_enqueued_east9 = [job_enqueued_east9]
   \<and> Status job_enqueued_east9 = ''pending''
   \<and> RetryCount job_enqueued_east9 = Some 0 \<and> MaxRetries job_enqueued_east9 = Some 3
   \<and> ScheduledAt job_enqueued_east9 = Some (GoTimestamp (east9 100))
   \<and> unix (east9 100) \<le> unix (east9 110)
   \<and> snd (GetNextJob db_enqueued_east9 (east9 110)) = Inr None
   \<and> snd (GetNextJob db_enqueued_east9 (east9 32500)) = Inr None
   \<and> snd (GetNextJob db_enqueued_east9 (east9 32501)) =
       Inr (Some (job_enqueued_east9\<lparr>Status := ''processing''\<rparr>))"
  by code_simp




text \<open>
  Claim C4 says that no call changes the status of a completed or failed job. The updates
  behind \<^verbatim>\<open>CompleteJob\<close> and \<^verbatim>\<open>FailJob\<close> select the row by id alone: a completed job
  that is failed afterwards becomes failed, or pending with a retry, and a failed job that
  is completed afterwards becomes completed.
\<close>

theorem terminal_status_overwritten:
  "map Status (job_queue db_completed) = [''completed'']
   \<and> map Status (job_queue (fst (FailJob db_completed 1 ''late failure'' False (utc 130)))) = [''failed'']
   \<and> map Status (job_queue (fst (FailJob db_completed 1 ''late failure'' True (utc 130)))) = [''pending'']
   \<and> map Status (job_queue db_failed) = [''failed'']
   \<and> map Status (job_queue (fst (CompleteJob db_failed 1 (utc 130)))) = [''completed'']"
  by code_simp

text \<open>
  Claim C4 as amended. In a table with unique ids, the row of a completed or failed job is
  left as it is by every \<^verbatim>\<open>GetNextJob\<close> call and by every \<^verbatim>\<open>CompleteJob\<close> or \<^verbatim>\<open>FailJob\<close>
  call for another job id.
\<close>

theorem terminal_job_kept_by_claims_and_other_ids:
  assumes "distinct (map ID (job_queue db))"
      and "snd (GetJobByID db i) = Inr row"
      and "Status row = ''completed'' \<or> Status row = ''failed''"
  shows "snd (GetJobByID (fst (GetNextJob db now)) i) = Inr row
         \<and> (\<forall>i'. i' \<noteq> i \<longrightarrow>
               snd (GetJobByID (fst (CompleteJob db i' now)) i) = Inr row
               \<and> snd (GetJobByID (fst (FailJob db i' msg retry now)) i) = Inr row)"
proof -
  have "Status row \<noteq> ''pending''"
    using assms(3) by auto
  then have "snd (GetJobByID (fst (GetNextJob db now)) i) = Inr row"
    using GetNextJob_keeps_not_pending [OF assms(1,2)] by simp
  then show ?thesis
    using assms(2) by (simp add: CompleteJob_lookup_other FailJob_lookup_other)
qed

theorem terminal_job_kept_by_claims_and_other_ids_witness:
  "distinct (map ID (job_queue db_completed))
   \<and> snd (GetJobByID db_completed 1) =
       Inr (job_enqueued\<lparr>Status := ''completed'', CompletedAt := Some (GoTimestamp (utc 120))\<rparr>)
   \<and> Status (job_enqueued\<lparr>Status := ''completed'', CompletedAt := Some (GoTimestamp (utc 120))\<rparr>) = ''completed''
   \<and> snd (GetJobByID (fst (GetNextJob db_completed (utc 130))) 1) =
       Inr (job_enqueued\<lparr>Status := ''completed'', CompletedAt := Some (GoTimestamp (utc 120))\<rparr>)
   \<and> snd (GetJobByID (fst (CompleteJob db_completed 2 (utc 130))) 1) =
       Inr (job_enqueued\<lparr>Status := ''completed'', CompletedAt := Some (GoTimestamp (utc 120))\<rparr>)
   \<and> snd (GetJobByID (fst (FailJob db_completed 2 ''late failure'' True (utc 130))) 1) =
       Inr (job_enqueued\<lparr>Status := ''completed'', CompletedAt := Some (GoTimestamp (utc 120))\<rparr>)"
proof -
  have d: "distinct (map ID (job_queue db_completed))"
    by code_simp
  have r: "snd (GetJobByID db_completed 1) =
             Inr (job_enqueued\<lparr>Status := ''completed'', CompletedAt := Some (GoTimestamp (utc 120))\<rparr>)"
    by code_simp
  have s: "Status (job_enqueued\<lparr>Status := ''completed'', CompletedAt := Some (GoTimestamp (utc 120))\<rparr>) = ''completed''
           \<or> Status (job_enqueued\<lparr>Status := ''completed'', CompletedAt := Some (GoTimestamp (utc 120))\<rparr>) = ''failed''"
    by simp
  from terminal_job_kept_by_claims_and_other_ids [OF d r s, of "utc 130" "''late failure''" True] d r
  show ?thesis by simp
qed

text \<open>
  Claim C5 expects a job failed with retry at second 120 to be due again at 120 plus five
  minutes. \<^verbatim>\<open>FailJob\<close> with retry does set the status to pending and adds one to
  \<^verbatim>\<open>retry_count\<close>, but the modifier it hands to \<^verbatim>\<open>datetime\<close> is the number 5, not the
  text \<^verbatim>\<open>+5 minutes\<close>, and the stored \<^verbatim>\<open>scheduled_at\<close> is NULL.
\<close>

theorem FailJob_with_retry_stores_null_scheduled_at:
  "snd (GetJobByID db_claimed 1) =
     Inr (job_enqueued\<lparr>Status := ''processing'', StartedAt := Some (GoTimestamp (utc 110))\<rparr>)
   \<and> snd (GetJobByID (fst (FailJob db_claimed 1 ''smtp: connection refused'' True (utc 120))) 1) =
     Inr (job_enqueued\<lparr>Status := ''pending'', StartedAt := Some (GoTimestamp (utc 110)), RetryCount := Some 1,
            ErrorMessage := Some ''smtp: connection refused'', ScheduledAt := None\<rparr>)
   \<and> retry_modifier (Some 0) = SqlInteger 5
   \<and> datetime 120 (SqlInteger 5) = None
   \<and> datetime 120 (SqlText ''+5 minutes'') = Some (120 + 5 * 60)"
  by code_simp

text \<open>
  Claim C6 expects \<^verbatim>\<open>CompleteJob\<close> to leave \<^verbatim>\<open>started_at\<close> as the claim set it. The job
  claimed at second 110 has \<^verbatim>\<open>started_at\<close> 110; after \<^verbatim>\<open>CompleteJob\<close> at second 120 its
  status is completed, \<^verbatim>\<open>completed_at\<close> is 120 and \<^verbatim>\<open>started_at\<close> is NULL.
\<close>

theorem CompleteJob_clears_started_at:
  "snd (GetJobByID db_claimed 1) =
     Inr (job_enqueued\<lparr>Status := ''processing'', StartedAt := Some (GoTimestamp (utc 110))\<rparr>)
   \<and> snd (GetJobByID (fst (CompleteJob db_claimed 1 (utc 120))) 1) =
     Inr (job_enqueued\<lparr>Status := ''completed'', StartedAt := None, CompletedAt := Some (GoTimestamp (utc 120))\<rparr>)"
  by code_simp

text \<open>
  Claim C7. When the worker has claimed a job and the payload does not deserialize or no
  processor is registered for the job type, then after the tick the job's row has the
  status failed, and its \<^verbatim>\<open>retry_count\<close> and \<^verbatim>\<open>max_retries\<close> are what they were before
  the claim, whatever their values.
\<close>

theorem unprocessable_job_fails_without_retry:
  assumes "GetNextJob db now = (db1, Inr (Some job))"
      and "(\<exists>err. unmarshal (Payload job) = Inl err) \<or> processors (JobType job) = None"
  shows "\<exists>row row'. snd (GetJobByID db (ID job)) = Inr row
           \<and> snd (GetJobByID (processNextJob unmarshal processors db now later) (ID job)) = Inr row'
           \<and> Status row' = ''failed''
           \<and> RetryCount row' = RetryCount row
           \<and> MaxRetries row' = MaxRetries row"
proof -
  let ?f = "\<lambda>r. r\<lparr>Status := ''processing'', StartedAt := Some (GoTimestamp now),
                     CompletedAt := None, ErrorMessage := None\<rparr>"
  obtain j js where sel: "order_by_priority (filter (eligible (unix now)) (job_queue db)) = j # js"
    and job: "job = j\<lparr>Status := ''processing''\<rparr>"
    and db1: "db1 = fst (update_where_id db (ID j) ?f)"
    using GetNextJob_claimed [OF assms(1)] by blast
  have "j \<in> set (filter (eligible (unix now)) (job_queue db))"
    using order_by_priority_head(1) [OF sel] .
  then have "j \<in> set (job_queue db)" by simp
  then obtain row where row: "snd (GetJobByID db (ID j)) = Inr row"
    using GetJobByID_member by blast
  have row1: "snd (GetJobByID db1 (ID j)) = Inr (?f row)"
    using row by (simp add: db1 update_where_id_lookup)
  obtain msg where run: "processNextJob_goroutine unmarshal processors db1 job later =
                           fst (FailJob db1 (ID job) msg False later)"
    using goroutine_unprocessable [of unmarshal job processors db1 later] assms(2) by blast
  have "processNextJob unmarshal processors db now later =
          fst (FailJob db1 (ID j) msg False later)"
    using assms(1) run job by (simp add: processNextJob_def)
  then have "snd (GetJobByID (processNextJob unmarshal processors db now later) (ID j)) =
          Inr ((?f row)\<lparr>Status := ''failed'', StartedAt := None,
                        CompletedAt := Some (GoTimestamp later), ErrorMessage := Some msg\<rparr>)"
    using row1 by (simp add: FailJob_no_retry_lookup)
  with row job show ?thesis by simp
qed

theorem unprocessable_job_fails_without_retry_witness:
  "GetNextJob db_export (utc 110) = (fst (GetNextJob db_export (utc 110)), Inr (Some job_export_claimed))
   \<and> example_processors (JobType job_export_claimed) = None
   \<and> (\<exists>row row'. snd (GetJobByID db_export (ID job_export_claimed)) = Inr row
         \<and> snd (GetJobByID (processNextJob unmarshal_ok example_processors db_export (utc 110) (utc 120))
                  (ID job_export_claimed)) = Inr row'
         \<and> Status row' = ''failed''
         \<and> RetryCount row' = RetryCount row
         \<and> MaxRetries row' = MaxRetries row)
   \<and> GetNextJob db_enqueued (utc 110) = (db_claimed, Inr (Some (job_enqueued\<lparr>Status := ''processing''\<rparr>)))
   \<and> unmarshal_bad (Payload (job_enqueued\<lparr>Status := ''processing''\<rparr>)) =
        Inl ''unexpected end of JSON input''
   \<and> (\<exists>row row'. snd (GetJobByID db_enqueued (ID (job_enqueued\<lparr>Status := ''processing''\<rparr>))) = Inr row
         \<and> snd (GetJobByID (processNextJob unmarshal_bad example_processors db_enqueued (utc 110) (utc 120))
                  (ID (job_enqueued\<lparr>Status := ''processing''\<rparr>))) = Inr row'
         \<and> Status row' = ''failed''
         \<and> RetryCount row' = RetryCount row
         \<and> MaxRetries row' = MaxRetries row)"
proof -
  have "snd (GetNextJob db_export (utc 110)) = Inr (Some job_export_claimed)"
    by code_simp
  then have c: "GetNextJob db_export (utc 110) =
                  (fst (GetNextJob db_export (utc 110)), Inr (Some job_export_claimed))"
    by (simp add: prod_eq_iff)
  have p: "example_processors (JobType job_export_claimed) = None"
    by (simp add: example_processors_def job_export_claimed_def)
  from p have d: "(\<exists>err. unmarshal_ok (Payload job_export_claimed) = Inl err)
               \<or> example_processors (JobType job_export_claimed) = None"
    by simp
  have "snd (GetNextJob db_enqueued (utc 110)) = Inr (Some (job_enqueued\<lparr>Status := ''processing''\<rparr>))"
    by code_simp
  then have c': "GetNextJob db_enqueued (utc 110) =
                   (db_claimed, Inr (Some (job_enqueued\<lparr>Status := ''processing''\<rparr>)))"
    by (simp add: prod_eq_iff db_claimed_def)
  have u: "unmarshal_bad (Payload (job_enqueued\<lparr>Status := ''processing''\<rparr>)) =
             Inl ''unexpected end of JSON input''"
    by (simp add: unmarshal_bad_def)
  then have d': "(\<exists>err. unmarshal_bad (Payload (job_enqueued\<lparr>Status := ''processing''\<rparr>)) = Inl err)
               \<or> example_processors (JobType (job_enqueued\<lparr>Status := ''processing''\<rparr>)) = None"
    by simp
  from unprocessable_job_fails_without_retry
         [where unmarshal = unmarshal_ok and processors = example_processors, OF c d]
       unprocessable_job_fails_without_retry
         [where unmarshal = unmarshal_bad and processors = example_processors, OF c' d']
       c p c' u
  show ?thesis
    by blast
qed

text \<open>
  Claim C8. A job that \<^verbatim>\<open>EnqueueJob\<close> returns has the status pending, \<^verbatim>\<open>max_retries\<close> 3
  and as \<^verbatim>\<open>scheduled_at\<close> the time of the call, in the text the driver writes for it,
  and is a row of the table;
  \<^verbatim>\<open>EnqueueJob\<close> has no parameter for \<^verbatim>\<open>max_retries\<close>. It returns an error exactly when
  the payload cannot be serialized, and the error is then the wrapped serialization error.
\<close>

theorem EnqueueJob_creates_pending_job:
  "(\<forall>db' job. EnqueueJob marshal db jobType payload priority now = (db', Inr job) \<longrightarrow>
       Status job = ''pending'' \<and> MaxRetries job = Some 3 \<and> ScheduledAt job = Some (GoTimestamp now)
       \<and> job \<in> set (job_queue db'))
   \<and> ((\<exists>e. snd (EnqueueJob marshal db jobType payload priority now) = Inl e)
        \<longleftrightarrow> (\<exists>m. marshal payload = Inl m))
   \<and> (\<forall>e. snd (EnqueueJob marshal db jobType payload priority now) = Inl e \<longrightarrow>
         (\<exists>m. marshal payload = Inl m \<and> e = FailedToMarshalPayload m))"
  by (cases "marshal payload") (auto simp: EnqueueJob_def CreateJob_def Let_def)

theorem EnqueueJob_creates_pending_job_witness:
  "EnqueueJob marshal_ok empty_database ''email_notification'' example_payload 0 (utc 100) =
     (db_enqueued, Inr job_enqueued)
   \<and> Status job_enqueued = ''pending'' \<and> MaxRetries job_enqueued = Some 3
   \<and> ScheduledAt job_enqueued = Some (GoTimestamp (utc 100)) \<and> job_enqueued \<in> set (job_queue db_enqueued)
   \<and> marshal_bad example_payload = Inl ''json: unsupported value''
   \<and> snd (EnqueueJob marshal_bad empty_database ''email_notification'' example_payload 0 (utc 100)) =
       Inl (FailedToMarshalPayload ''json: unsupported value'')"
proof -
  have ok: "EnqueueJob marshal_ok empty_database ''email_notification'' example_payload 0 (utc 100) =
              (db_enqueued, Inr job_enqueued)"
    by (simp add: db_enqueued_def job_enqueued_def EnqueueJob_def marshal_ok_def CreateJob_def
          empty_database_def utc_def Let_def)
  have bad: "marshal_bad example_payload = Inl ''json: unsupported value''"
    by (simp add: marshal_bad_def)
  from bad
    EnqueueJob_creates_pending_job
      [of marshal_bad empty_database "''email_notification''" example_payload 0 "utc 100"]
  obtain e where e: "snd (EnqueueJob marshal_bad empty_database ''email_notification''
                          example_payload 0 (utc 100)) = Inl e"
    by blast
  with bad
    EnqueueJob_creates_pending_job
      [of marshal_bad empty_database "''email_notification''" example_payload 0 "utc 100"]
  have "e = FailedToMarshalPayload ''json: unsupported value''"
    by auto
  with e ok bad
    EnqueueJob_creates_pending_job
      [of marshal_ok empty_database "''email_notification''" example_payload 0 "utc 100"]
  show ?thesis by simp
qed

text \<open>
  Claim C9. Whenever the insert of \<^verbatim>\<open>CreateUser\<close> has succeeded, \<^verbatim>\<open>CreateUser\<close> returns
  the created user and no error, and the inserted row is in the database it leaves,
  whatever the enqueue of the \<^verbatim>\<open>user_created\<close> job does. If that enqueue fails, the
  database is the one the insert left, and exactly one line is printed, with the user's id
  and the enqueue error.
\<close>

theorem CreateUser_survives_enqueue_failure:
  assumes "additionalData_of marshal_props additionalProps = Inr additionalData"
      and "Queries_CreateUser db (unix now) (req_Email userReq) (req_Age userReq)
             (req_Name userReq) (req_Bio userReq) (isActive_of userReq) additionalData =
             (db1, Inr dbUser)"
      and "convertDBUserToGenerated dbUser = Inr user"
  shows "snd (snd (CreateUser marshal_props marshal db userReq additionalProps now)) = Inr user
         \<and> dbUser \<in> set (users (fst (CreateUser marshal_props marshal db userReq additionalProps now)))
         \<and> Id user = user_id dbUser
         \<and> (\<forall>db2 jobErr.
               EnqueueJob marshal db1 ''user_created'' (jobPayload_of user additionalProps) 1 now =
                 (db2, Inl jobErr) \<longrightarrow>
               CreateUser marshal_props marshal db userReq additionalProps now =
                 (db1, [FailedToEnqueueJobForUser (Id user) jobErr], Inr user))"
proof -
  let ?enq = "EnqueueJob marshal db1 ''user_created'' (jobPayload_of user additionalProps) 1 now"
  have cu: "CreateUser marshal_props marshal db userReq additionalProps now =
              (case ?enq of
                 (db2, Inl jobErr) \<Rightarrow>
                   (db2, [FailedToEnqueueJobForUser (Id user) jobErr], Inr user)
               | (db2, Inr _) \<Rightarrow> (db2, [], Inr user))"
    using assms by (simp add: CreateUser_def Let_def)
  have row: "dbUser \<in> set (users db1)"
    using assms(2) by (auto simp: Queries_CreateUser_def Let_def split: if_splits)
  have us: "users (fst ?enq) = users db1"
    by (rule EnqueueJob_users)
  have res: "snd (snd (CreateUser marshal_props marshal db userReq additionalProps now)) = Inr user"
    unfolding cu by (cases ?enq) (auto split: sum.splits)
  have fin: "fst (CreateUser marshal_props marshal db userReq additionalProps now) = fst ?enq"
    unfolding cu by (cases ?enq) (auto split: sum.splits)
  have idu: "Id user = user_id dbUser"
    using assms(3) by (auto simp: convertDBUserToGenerated_def)
  have fail: "CreateUser marshal_props marshal db userReq additionalProps now =
                 (db1, [FailedToEnqueueJobForUser (Id user) jobErr], Inr user)"
    if "?enq = (db2, Inl jobErr)" for db2 jobErr
  proof -
    have "db2 = db1" using that by (rule EnqueueJob_error_keeps_database)
    with that show ?thesis by (simp add: cu)
  qed
  from res row us fin idu fail show ?thesis by simp
qed

theorem CreateUser_survives_enqueue_failure_witness:
  "additionalData_of marshal_props_ok [] = Inr None
   \<and> Queries_CreateUser empty_database (unix (utc 50)) (req_Email example_request)
        (req_Age example_request) (req_Name example_request) (req_Bio example_request)
        (isActive_of example_request) None = (db_with_user, Inr example_user_row)
   \<and> convertDBUserToGenerated example_user_row = Inr example_user
   \<and> EnqueueJob marshal_bad db_with_user ''user_created'' (jobPayload_of example_user []) 1
        (utc 50) = (db_with_user, Inl (FailedToMarshalPayload ''json: unsupported value''))
   \<and> CreateUser marshal_props_ok marshal_bad empty_database example_request [] (utc 50) =
       (db_with_user,
        [FailedToEnqueueJobForUser 1 (FailedToMarshalPayload ''json: unsupported value'')],
        Inr example_user)
   \<and> example_user_row \<in> set (users db_with_user)"
proof -
  have a: "additionalData_of marshal_props_ok [] = Inr None"
    by (simp add: additionalData_of_def)
  have q: "Queries_CreateUser empty_database (unix (utc 50)) (req_Email example_request)
        (req_Age example_request) (req_Name example_request) (req_Bio example_request)
        (isActive_of example_request) None = (db_with_user, Inr example_user_row)"
    by (simp add: Queries_CreateUser_def empty_database_def example_request_def isActive_of_def
          db_with_user_def example_user_row_def utc_def Let_def)
  have c: "convertDBUserToGenerated example_user_row = Inr example_user"
    by (simp add: convertDBUserToGenerated_def example_user_row_def example_user_def)
  have e: "EnqueueJob marshal_bad db_with_user ''user_created'' (jobPayload_of example_user []) 1
        (utc 50) = (db_with_user, Inl (FailedToMarshalPayload ''json: unsupported value''))"
    by (simp add: EnqueueJob_def marshal_bad_def)
  have i: "Id example_user = 1"
    by (simp add: example_user_def)
  have m: "example_user_row \<in> set (users db_with_user)"
    by (simp add: db_with_user_def)
  from CreateUser_survives_enqueue_failure [where marshal = marshal_bad, OF a q c] e i
  have "CreateUser marshal_props_ok marshal_bad empty_database example_request [] (utc 50) =
       (db_with_user,
        [FailedToEnqueueJobForUser 1 (FailedToMarshalPayload ''json: unsupported value'')],
        Inr example_user)"
    by auto
  with a q c e m show ?thesis by simp
qed

text \<open>
  Claim C10. \<^verbatim>\<open>EnqueueJob\<close> does not look at the table of processors: for every job type,
  it succeeds whenever the payload serializes and stores a pending job of that type. A
  job type without a processor is found out only by the worker: a tick that claims the
  new job leaves it failed.
\<close>

theorem EnqueueJob_accepts_unregistered_job_type:
  assumes "marshal payload = Inr payloadJSON"
  shows "\<exists>db1 job. EnqueueJob marshal db jobType payload priority now = (db1, Inr job)
           \<and> JobType job = jobType \<and> Status job = ''pending'' \<and> job \<in> set (job_queue db1)
           \<and> (processors jobType = None
                 \<and> snd (GetNextJob db1 t) = Inr (Some (job\<lparr>Status := ''processing''\<rparr>)) \<longrightarrow>
                (\<exists>row. snd (GetJobByID (processNextJob unmarshal processors db1 t later) (ID job))
                          = Inr row
                       \<and> Status row = ''failed''))"
proof -
  define job where "job = \<lparr>ID = job_queue_seq db + 1, JobType = jobType, Payload = payloadJSON,
                 Status = ''pending'', Priority = Some priority, MaxRetries = Some 3,
                 RetryCount = Some 0, ErrorMessage = None, ScheduledAt = Some (GoTimestamp now),
                 StartedAt = None, CompletedAt = None,
                 CreatedAt = Some (SqliteTimestamp (unix now))\<rparr>"
  define db1 where "db1 = db\<lparr>job_queue := job_queue db @ [job],
                              job_queue_seq := job_queue_seq db + 1\<rparr>"
  have enq: "EnqueueJob marshal db jobType payload priority now = (db1, Inr job)"
    using assms by (simp add: EnqueueJob_def CreateJob_def Let_def job_def db1_def)
  have fields: "JobType job = jobType" "Status job = ''pending''" "job \<in> set (job_queue db1)"
    by (simp_all add: job_def db1_def)
  have fails: "\<exists>row. snd (GetJobByID (processNextJob unmarshal processors db1 t later) (ID job))
                          = Inr row \<and> Status row = ''failed''"
    if none: "processors jobType = None"
      and claimed: "snd (GetNextJob db1 t) = Inr (Some (job\<lparr>Status := ''processing''\<rparr>))"
  proof -
    let ?f = "\<lambda>r. r\<lparr>Status := ''processing'', StartedAt := Some (GoTimestamp t),
                       CompletedAt := None, ErrorMessage := None\<rparr>"
    let ?copy = "job\<lparr>Status := ''processing''\<rparr>"
    obtain db2 where g: "GetNextJob db1 t = (db2, Inr (Some ?copy))"
      using claimed by (cases "GetNextJob db1 t") simp
    obtain j js where copy: "?copy = j\<lparr>Status := ''processing''\<rparr>"
      and db2: "db2 = fst (update_where_id db1 (ID j) ?f)"
      using GetNextJob_claimed [OF g] by blast
    have idj: "ID j = ID job"
    proof -
      have "ID (j\<lparr>Status := ''processing''\<rparr>) = ID ?copy" using copy by simp
      then show ?thesis by simp
    qed
    have "processors (JobType ?copy) = None"
      using none by (simp add: job_def)
    then obtain msg where run: "processNextJob_goroutine unmarshal processors db2 ?copy later =
                                  fst (FailJob db2 (ID ?copy) msg False later)"
      using goroutine_unprocessable [of unmarshal ?copy processors db2 later] by blast
    obtain row0 where "snd (GetJobByID db1 (ID job)) = Inr row0"
      using GetJobByID_member fields(3) by blast
    then have "snd (GetJobByID db2 (ID job)) = Inr (?f row0)"
      by (simp add: db2 idj update_where_id_lookup)
    then have "snd (GetJobByID (fst (FailJob db2 (ID job) msg False later)) (ID job)) =
                 Inr ((?f row0)\<lparr>Status := ''failed'', StartedAt := None,
                                 CompletedAt := Some (GoTimestamp later),
                                 ErrorMessage := Some msg\<rparr>)"
      by (simp add: FailJob_no_retry_lookup)
    moreover have "processNextJob unmarshal processors db1 t later =
                     fst (FailJob db2 (ID job) msg False later)"
      using g run by (simp add: processNextJob_def)
    ultimately show ?thesis by simp
  qed
  show ?thesis
    by (intro exI [of _ db1] exI [of _ job] conjI impI enq fields fails) simp_all
qed

theorem EnqueueJob_accepts_unregistered_job_type_witness:
  "marshal_ok example_payload = Inr ''{}''
   \<and> example_processors ''data_export'' = None
   \<and> snd (GetNextJob db_export (utc 110)) = Inr (Some job_export_claimed)
   \<and> (\<exists>db1 job. EnqueueJob marshal_ok empty_database ''data_export'' example_payload 0 (utc 100) =
                    (db1, Inr job)
         \<and> db1 = db_export \<and> job\<lparr>Status := ''processing''\<rparr> = job_export_claimed
         \<and> JobType job = ''data_export'' \<and> Status job = ''pending''
         \<and> (\<exists>row. snd (GetJobByID
                           (processNextJob unmarshal_ok example_processors db1 (utc 110) (utc 120))
                           (ID job)) = Inr row
                \<and> Status row = ''failed''))"
proof -
  have m: "marshal_ok example_payload = Inr ''{}''"
    by (simp add: marshal_ok_def)
  have p: "example_processors ''data_export'' = None"
    by (simp add: example_processors_def)
  have g: "snd (GetNextJob db_export (utc 110)) = Inr (Some job_export_claimed)"
    by code_simp
  obtain db1 job where
        e: "EnqueueJob marshal_ok empty_database ''data_export'' example_payload 0 (utc 100) =
              (db1, Inr job)"
    and f: "JobType job = ''data_export''" "Status job = ''pending''"
    and w: "example_processors ''data_export'' = None
              \<and> snd (GetNextJob db1 (utc 110)) = Inr (Some (job\<lparr>Status := ''processing''\<rparr>)) \<longrightarrow>
            (\<exists>row. snd (GetJobByID
                          (processNextJob unmarshal_ok example_processors db1 (utc 110) (utc 120))
                          (ID job)) = Inr row
                   \<and> Status row = ''failed'')"
    using EnqueueJob_accepts_unregistered_job_type
         [where marshal = marshal_ok and processors = example_processors
            and unmarshal = unmarshal_ok and db = empty_database and jobType = "''data_export''"
            and priority = 0 and now = "utc 100" and t = "utc 110" and later = "utc 120", OF m]
    by blast
  have d: "db1 = db_export"
    using e by (simp add: db_export_def)
  have "job = \<lparr>ID = 1, JobType = ''data_export'', Payload = ''{}'', Status = ''pending'',
      Priority = Some 0, MaxRetries = Some 3, RetryCount = Some 0, ErrorMessage = None,
      ScheduledAt = Some (GoTimestamp (utc 100)), StartedAt = None, CompletedAt = None,
      CreatedAt = Some (SqliteTimestamp 100)\<rparr>"
    using e by (simp add: EnqueueJob_def marshal_ok_def CreateJob_def empty_database_def utc_def
                  Let_def)
  then have c: "job\<lparr>Status := ''processing''\<rparr> = job_export_claimed"
    by (simp add: job_export_claimed_def)
  from w p g d c have "\<exists>row. snd (GetJobByID
                          (processNextJob unmarshal_ok example_processors db1 (utc 110) (utc 120))
                          (ID job)) = Inr row
                   \<and> Status row = ''failed''"
    by simp
  with m p g e f d c show ?thesis by blast
qed

end
